theory Spec2Isabelle
  imports Main "HOL-Library.Multiset" "HOL-Library.Sublist"
begin

section \<open>Syntax model\<close>

text \<open>
  The matcher of \<^verbatim>\<open>match.go\<close> works on Go syntax trees (\<^verbatim>\<open>go/ast\<close>). A value of the
  interface \<^verbatim>\<open>ast.Node\<close> is modelled by the datatype \<open>node\<close>: one constructor for each
  node kind that \<^verbatim>\<open>matcher.node\<close> dispatches on, \<open>NilNode\<close> for the nil interface,
  \<open>NList\<close> for the four list types declared at the end of \<^verbatim>\<open>match.go\<close>
  (\<^verbatim>\<open>exprList\<close>, \<^verbatim>\<open>identList\<close>, \<^verbatim>\<open>stmtList\<close>, \<^verbatim>\<open>specList\<close>) and \<open>Other\<close> for every
  remaining kind of \<^verbatim>\<open>go/ast\<close> (\<^verbatim>\<open>ImportSpec\<close>, \<^verbatim>\<open>TypeSpec\<close>, \<^verbatim>\<open>BadExpr\<close>, ...), for which
  the type switch has no case.

  Only the fields that \<^verbatim>\<open>match.go\<close> reads are kept. The position fields of a node are
  summarised by its source span (the values of its \<^verbatim>\<open>Pos()\<close> and \<^verbatim>\<open>End()\<close> methods); the
  position of the \<^verbatim>\<open>...\<close> of a call is kept as it is, since \<^verbatim>\<open>bothValid\<close> reads it.
  A field of type \<^verbatim>\<open>*ast.FieldList\<close> is an optional list of fields (\<open>None\<close> is the nil
  pointer). \<open>NilBlockStmt\<close> is the nil \<^verbatim>\<open>*ast.BlockStmt\<close> stored in an interface (the body
  of a function declared without one): it is not the nil interface, and reading its
  statement list panics.
\<close>

type_synonym pos = int
type_synonym span = "pos \<times> pos"
type_synonym token = string

datatype listKind = ExprL | IdentL | StmtL | SpecL

datatype (plugins only: code size) node =
    NilNode
  | NilBlockStmt
  | NList listKind "node list"
  | Other span string
  | File span node "node list" "node list"
  | Ident span string
  | BasicLit span token string
  | CompositeLit span node "node list"
  | FuncLit span node node
  | ArrayType span node node
  | MapType span node node
  | StructType span "node list option"
  | Field span "node list" node
  | FuncType span "node list option" "node list option"
  | InterfaceType span "node list option"
  | ChanType span nat node
  | Ellipsis span node
  | ParenExpr span node
  | UnaryExpr span token node
  | BinaryExpr span node token node
  | CallExpr span node "node list" pos
  | KeyValueExpr span node node
  | StarExpr span node
  | SelectorExpr span node node
  | IndexExpr span node node
  | SliceExpr span node node node node
  | TypeAssertExpr span node node
  | GenDecl span token "node list"
  | FuncDecl span "node list option" node node node
  | ValueSpec span "node list" node "node list"
  | ExprStmt span node
  | DeclStmt span node
  | EmptyStmt span
  | LabeledStmt span node node
  | SendStmt span node node
  | IncDecStmt span node token
  | AssignStmt span "node list" token "node list"
  | GoStmt span node
  | DeferStmt span node
  | ReturnStmt span "node list"
  | BranchStmt span token node
  | BlockStmt span "node list"
  | IfStmt span node node node node
  | CaseClause span "node list" "node list"
  | SwitchStmt span node node node
  | TypeSwitchStmt span node node node
  | CommClause span node "node list"
  | SelectStmt span node
  | ForStmt span node node node node
  | RangeStmt span node node node node

text \<open>
  Field order of the constructors, after the span:
  \<open>File Name Decls Imports\<close>, \<open>BasicLit Kind Value\<close>, \<open>CompositeLit Type Elts\<close>,
  \<open>FuncLit Type Body\<close>, \<open>ArrayType Len Elt\<close>, \<open>MapType Key Value\<close>, \<open>Field Names Type\<close>,
  \<open>FuncType Params Results\<close>, \<open>ChanType Dir Value\<close>, \<open>UnaryExpr Op X\<close>,
  \<open>BinaryExpr X Op Y\<close>, \<open>CallExpr Fun Args Ellipsis\<close>, \<open>SelectorExpr X Sel\<close>,
  \<open>IndexExpr X Index\<close>, \<open>SliceExpr X Low High Max\<close>, \<open>TypeAssertExpr X Type\<close>,
  \<open>GenDecl Tok Specs\<close>, \<open>FuncDecl Recv Name Type Body\<close>, \<open>ValueSpec Names Type Values\<close>,
  \<open>LabeledStmt Label Stmt\<close>, \<open>SendStmt Chan Value\<close>, \<open>IncDecStmt X Tok\<close>,
  \<open>AssignStmt Lhs Tok Rhs\<close>, \<open>BranchStmt Tok Label\<close>, \<open>IfStmt Init Cond Body Else\<close>,
  \<open>CaseClause List Body\<close>, \<open>SwitchStmt Init Tag Body\<close>, \<open>TypeSwitchStmt Init Assign Body\<close>,
  \<open>CommClause Comm Body\<close>, \<open>ForStmt Init Cond Post Body\<close>, \<open>RangeStmt Key Value X Body\<close>.
  The nil slice and the empty slice are both the empty list.
\<close>

definition nodeSpan :: "node \<Rightarrow> span" where
  "nodeSpan n = (case n of
      NilNode \<Rightarrow> (0, 0) | NilBlockStmt \<Rightarrow> (0, 0) | NList lk xs \<Rightarrow> (0, 0)
    | Other sp s \<Rightarrow> sp | File sp a b c \<Rightarrow> sp | Ident sp s \<Rightarrow> sp | BasicLit sp t s \<Rightarrow> sp
    | CompositeLit sp a b \<Rightarrow> sp | FuncLit sp a b \<Rightarrow> sp | ArrayType sp a b \<Rightarrow> sp
    | MapType sp a b \<Rightarrow> sp | StructType sp a \<Rightarrow> sp | Field sp a b \<Rightarrow> sp
    | FuncType sp a b \<Rightarrow> sp | InterfaceType sp a \<Rightarrow> sp | ChanType sp a b \<Rightarrow> sp
    | Ellipsis sp a \<Rightarrow> sp | ParenExpr sp a \<Rightarrow> sp | UnaryExpr sp a b \<Rightarrow> sp
    | BinaryExpr sp a b c \<Rightarrow> sp | CallExpr sp a b c \<Rightarrow> sp | KeyValueExpr sp a b \<Rightarrow> sp
    | StarExpr sp a \<Rightarrow> sp | SelectorExpr sp a b \<Rightarrow> sp | IndexExpr sp a b \<Rightarrow> sp
    | SliceExpr sp a b c d \<Rightarrow> sp | TypeAssertExpr sp a b \<Rightarrow> sp | GenDecl sp a b \<Rightarrow> sp
    | FuncDecl sp a b c d \<Rightarrow> sp | ValueSpec sp a b c \<Rightarrow> sp | ExprStmt sp a \<Rightarrow> sp
    | DeclStmt sp a \<Rightarrow> sp | EmptyStmt sp \<Rightarrow> sp | LabeledStmt sp a b \<Rightarrow> sp
    | SendStmt sp a b \<Rightarrow> sp | IncDecStmt sp a b \<Rightarrow> sp | AssignStmt sp a b c \<Rightarrow> sp
    | GoStmt sp a \<Rightarrow> sp | DeferStmt sp a \<Rightarrow> sp | ReturnStmt sp a \<Rightarrow> sp
    | BranchStmt sp a b \<Rightarrow> sp | BlockStmt sp a \<Rightarrow> sp | IfStmt sp a b c d \<Rightarrow> sp
    | CaseClause sp a b \<Rightarrow> sp | SwitchStmt sp a b c \<Rightarrow> sp | TypeSwitchStmt sp a b c \<Rightarrow> sp
    | CommClause sp a b \<Rightarrow> sp | SelectStmt sp a \<Rightarrow> sp | ForStmt sp a b c d \<Rightarrow> sp
    | RangeStmt sp a b c d \<Rightarrow> sp)"


section \<open>The matcher's environment and state\<close>

text \<open>
  A panic of the Go program is a value of the model, as is running out of fuel: the
  recursion of \<^verbatim>\<open>matcher.node\<close> through a bound capture is not structural, so the
  matching functions take a fuel argument that bounds the depth of calls and the
  number of loop iterations on a call path.
\<close>

datatype fault = Panic string | OutOfFuel

type_synonym 'a res = "fault + 'a"

text \<open>
  The values of \<^verbatim>\<open>go/types\<close> that \<^verbatim>\<open>match.go\<close> handles: a type is either opaque (what
  \<^verbatim>\<open>Object.Type()\<close> returns) or built by \<^verbatim>\<open>types.NewSlice\<close>, \<^verbatim>\<open>types.NewArray\<close> or
  \<^verbatim>\<open>types.NewPointer\<close>; an object is a package name (with the scope of the imported
  package) or any other object (with its type). \<open>None :: scope option\<close> is the nil
  \<^verbatim>\<open>*types.Scope\<close>.
\<close>

datatype gotype = TOpaque string | TSlice gotype | TArray gotype int | TPointer gotype

type_synonym scope = nat

datatype object = PkgName "scope option" | Object gotype

text \<open>
  Modelled from the spec: the record of a wildcard (\<^verbatim>\<open>varInfo\<close>, the spec's WildcardSpec)
  and the type constraint (\<^verbatim>\<open>typeCheck\<close>) are declared outside \<^verbatim>\<open>match.go\<close>; their fields
  are the ones \<^verbatim>\<open>match.go\<close> reads. A name constraint is a compiled regular expression of
  which only \<^verbatim>\<open>MatchString\<close> is used: it is modelled by that predicate.
\<close>

record typeCheck =
  op :: string
  expr :: node

record varInfo =
  name :: string
  any :: bool
  nameRxs :: "(string \<Rightarrow> bool) list"
  needExpr :: bool
  comp :: bool
  types :: "typeCheck list"

text \<open>
  What the matcher reads and never writes is collected in the environment: the flag
  \<^verbatim>\<open>m.aggressive\<close>; the functions \<^verbatim>\<open>isWildName\<close>, \<^verbatim>\<open>fromWildName\<close> and \<^verbatim>\<open>matcher.info\<close>,
  which are declared outside \<^verbatim>\<open>match.go\<close> and are taken as parameters; the type
  information \<^verbatim>\<open>m.Info\<close> (\<^verbatim>\<open>Scopes\<close>, \<^verbatim>\<open>TypeOf\<close>); and the functions of the Go library
  that \<^verbatim>\<open>match.go\<close> calls (\<^verbatim>\<open>Scope.LookupParent\<close>, \<^verbatim>\<open>types.Comparable\<close>,
  \<^verbatim>\<open>types.Identical\<close>, \<^verbatim>\<open>types.AssignableTo\<close>, \<^verbatim>\<open>types.ConvertibleTo\<close>,
  \<^verbatim>\<open>strconv.ParseInt\<close>, and \<^verbatim>\<open>ast.Inspect\<close>, given as the list of the non-nil nodes it
  visits, in order).
\<close>

record env =
  aggressive :: bool
  isWildName :: "string \<Rightarrow> bool"
  fromWildName :: "string \<Rightarrow> int"
  info :: "int \<Rightarrow> varInfo"
  Scopes :: "node \<Rightarrow> scope option"
  TypeOf :: "node \<Rightarrow> gotype option"
  LookupParent :: "scope option \<Rightarrow> string \<Rightarrow> object option"
  Comparable :: "gotype \<Rightarrow> bool"
  Identical :: "gotype \<Rightarrow> gotype \<Rightarrow> bool"
  AssignableTo :: "gotype \<Rightarrow> gotype \<Rightarrow> bool"
  ConvertibleTo :: "gotype \<Rightarrow> gotype \<Rightarrow> bool"
  ParseInt :: "string \<Rightarrow> int"
  Inspect :: "node \<Rightarrow> node list"

text \<open>
  The mutable fields of the matcher: \<^verbatim>\<open>m.values\<close> (the Bindings) and \<^verbatim>\<open>m.scope\<close>.
\<close>

record mstate =
  mvalues :: "string \<rightharpoonup> node"
  scope :: "scope option"

type_synonym matchres = "(bool \<times> mstate) res"

definition ret :: "bool \<Rightarrow> mstate \<Rightarrow> matchres" where
  "ret b st = Inr (b, st)"

definition andAlso :: "(mstate \<Rightarrow> matchres) \<Rightarrow> (mstate \<Rightarrow> matchres) \<Rightarrow> mstate \<Rightarrow> matchres" where
  "andAlso f g st =
     (case f st of Inl x \<Rightarrow> Inl x | Inr (b, st') \<Rightarrow> if b then g st' else Inr (False, st'))"

definition orElse :: "(mstate \<Rightarrow> matchres) \<Rightarrow> (mstate \<Rightarrow> matchres) \<Rightarrow> mstate \<Rightarrow> matchres" where
  "orElse f g st =
     (case f st of Inl x \<Rightarrow> Inl x | Inr (b, st') \<Rightarrow> if b then Inr (True, st') else g st')"

definition notNil :: "(node \<times> mstate) res \<Rightarrow> matchres" where
  "notNil r = (case r of Inl x \<Rightarrow> Inl x | Inr (n, st) \<Rightarrow> Inr (n \<noteq> NilNode, st))"

section \<open>Helpers of \<^verbatim>\<open>match.go\<close>\<close>

definition IsValid :: "pos \<Rightarrow> bool" where
  "IsValid p = (p \<noteq> 0)"

definition bothValid :: "pos \<Rightarrow> pos \<Rightarrow> bool" where
  "bothValid p1 p2 = (IsValid p1 = IsValid p2)"

definition maybeNilIdent :: "node \<Rightarrow> node" where
  "maybeNilIdent x = (if x = NilNode then NilNode else x)"

text \<open>Whether a node implements \<^verbatim>\<open>ast.Expr\<close> (a fact of \<^verbatim>\<open>go/ast\<close>).\<close>

definition isExpr :: "node \<Rightarrow> bool" where
  "isExpr n = (case n of
      Other sp s \<Rightarrow> s = ''BadExpr'' | Ident sp s \<Rightarrow> True | Ellipsis sp a \<Rightarrow> True
    | BasicLit sp t s \<Rightarrow> True | FuncLit sp a b \<Rightarrow> True | CompositeLit sp a b \<Rightarrow> True
    | ParenExpr sp a \<Rightarrow> True | SelectorExpr sp a b \<Rightarrow> True | IndexExpr sp a b \<Rightarrow> True
    | SliceExpr sp a b c d \<Rightarrow> True | TypeAssertExpr sp a b \<Rightarrow> True | CallExpr sp a b c \<Rightarrow> True
    | StarExpr sp a \<Rightarrow> True | UnaryExpr sp a b \<Rightarrow> True | BinaryExpr sp a b c \<Rightarrow> True
    | KeyValueExpr sp a b \<Rightarrow> True | ArrayType sp a b \<Rightarrow> True | StructType sp a \<Rightarrow> True
    | FuncType sp a b \<Rightarrow> True | InterfaceType sp a \<Rightarrow> True | MapType sp a b \<Rightarrow> True
    | ChanType sp a b \<Rightarrow> True | _ \<Rightarrow> False)"

text \<open>The node kinds at which \<^verbatim>\<open>matcher.node\<close> re-seats \<^verbatim>\<open>m.scope\<close>.\<close>

definition isScopeNode :: "node \<Rightarrow> bool" where
  "isScopeNode n = (case n of
      File sp a b c \<Rightarrow> True | FuncType sp a b \<Rightarrow> True | BlockStmt sp a \<Rightarrow> True
    | NilBlockStmt \<Rightarrow> True | IfStmt sp a b c d \<Rightarrow> True | SwitchStmt sp a b c \<Rightarrow> True
    | TypeSwitchStmt sp a b c \<Rightarrow> True | CaseClause sp a b \<Rightarrow> True | CommClause sp a b \<Rightarrow> True
    | ForStmt sp a b c d \<Rightarrow> True | RangeStmt sp a b c d \<Rightarrow> True | _ \<Rightarrow> False)"

fun fromWildNode :: "env \<Rightarrow> node \<Rightarrow> int" where
  "fromWildNode e (Ident sp x) = fromWildName e x"
| "fromWildNode e (ExprStmt sp x) = fromWildNode e x"
| "fromWildNode e _ = -1"

definition initExprList :: "node \<Rightarrow> node \<Rightarrow> node \<Rightarrow> node" where
  "initExprList init ex post =
     NList StmtL ((if init \<noteq> NilNode then [init] else [])
                  @ (if ex \<noteq> NilNode then [ExprStmt (nodeSpan ex) ex] else [])
                  @ (if post \<noteq> NilNode then [post] else []))"

text \<open>
  \<^verbatim>\<open>l[i:j]\<close> of the list types: Go panics when the bounds are out of range.
\<close>

definition slice :: "listKind \<times> node list \<Rightarrow> nat \<Rightarrow> nat \<Rightarrow> node res" where
  "slice l i j =
     (if i \<le> j \<and> j \<le> length (snd l) then Inr (NList (fst l) (take (j - i) (drop i (snd l))))
      else Inl (Panic ''slice bounds out of range''))"

section \<open>Type constraint resolution\<close>

definition objType :: "object \<Rightarrow> gotype" where
  "objType obj = (case obj of Object t \<Rightarrow> t | PkgName sc \<Rightarrow> TOpaque ''invalid type'')"

text \<open>
  \<^verbatim>\<open>findScope\<close>: the looked-up object is asserted to be a \<^verbatim>\<open>*types.PkgName\<close>; the assertion
  panics on any other object and on the nil object of a failed lookup.
\<close>

definition findScope :: "env \<Rightarrow> scope option \<Rightarrow> node \<Rightarrow> (scope option) res" where
  "findScope e sc ex = (case ex of
      Ident sp x \<Rightarrow>
        (case LookupParent e sc x of
           Some (PkgName imported) \<Rightarrow> Inr imported
         | _ \<Rightarrow> Inl (Panic ''interface conversion: not *types.PkgName''))
    | _ \<Rightarrow> Inl (Panic ''findScope TODO''))"

fun resolveType :: "env \<Rightarrow> scope option \<Rightarrow> node \<Rightarrow> gotype res" where
  "resolveType e sc (Ident sp x) =
     (case LookupParent e sc x of
        None \<Rightarrow> Inl (Panic ''nil pointer dereference'')
      | Some obj \<Rightarrow> Inr (objType obj))"
| "resolveType e sc (ArrayType sp len elt) =
     (case resolveType e sc elt of
        Inl f \<Rightarrow> Inl f
      | Inr t \<Rightarrow>
          if len = NilNode then Inr (TSlice t)
          else (case len of
                  BasicLit sp' kind v \<Rightarrow>
                    if kind \<noteq> ''INT'' then Inl (Panic ''TODO: *ast.ArrayType'')
                    else Inr (TArray t (ParseInt e v))
                | _ \<Rightarrow> Inl (Panic ''TODO: *ast.ArrayType'')))"
| "resolveType e sc (StarExpr sp x) =
     (case resolveType e sc x of Inl f \<Rightarrow> Inl f | Inr t \<Rightarrow> Inr (TPointer t))"
| "resolveType e sc (SelectorExpr sp x sel) =
     (case findScope e sc x of Inl f \<Rightarrow> Inl f | Inr sc' \<Rightarrow> resolveType e sc' sel)"
| "resolveType e sc _ = Inl (Panic ''resolveType TODO'')"

text \<open>
  The loop over \<^verbatim>\<open>info.types\<close> in the identifier case of \<^verbatim>\<open>matcher.node\<close>: each
  constraint resolves its type expression against \<^verbatim>\<open>m.scope\<close> and compares.
\<close>

fun typesOk :: "env \<Rightarrow> scope option \<Rightarrow> gotype \<Rightarrow> typeCheck list \<Rightarrow> bool res" where
  "typesOk e sc t [] = Inr True"
| "typesOk e sc t (tc # tcs) =
     (case resolveType e sc (expr tc) of
        Inl f \<Rightarrow> Inl f
      | Inr want \<Rightarrow>
          if op tc = ''type'' \<and> \<not> Identical e t want then Inr False
          else if op tc = ''asgn'' \<and> \<not> AssignableTo e t want then Inr False
          else if op tc = ''conv'' \<and> \<not> ConvertibleTo e t want then Inr False
          else typesOk e sc t tcs)"


section \<open>The node matcher and the sequence matcher\<close>

text \<open>
  The interface \<^verbatim>\<open>nodeList\<close>: a list of nodes with the kind of the Go type that holds it.
\<close>

type_synonym nodeList = "listKind \<times> node list"

definition len :: "nodeList \<Rightarrow> nat" where
  "len l = length (snd l)"

definition at :: "nodeList \<Rightarrow> nat \<Rightarrow> node" where
  "at l i = snd l ! i"

text \<open>
  The local variables of \<^verbatim>\<open>matcher.nodes\<close>. \<open>oldMatches\<close> is the copy of \<^verbatim>\<open>m.values\<close> that
  \<^verbatim>\<open>backupMatches\<close> makes: a map of the model is a value, so the copy is the map itself.
\<close>

record loopst =
  i1 :: nat
  i2 :: nat
  next1 :: nat
  next2 :: nat
  wildName :: string
  wildStart :: nat
  partialStart :: nat
  partialEnd :: nat
  oldMatches :: "string \<rightharpoonup> node"

definition isWildIdent :: "env \<Rightarrow> node \<Rightarrow> bool" where
  "isWildIdent e x = (case x of Ident sp n \<Rightarrow> isWildName e n | _ \<Rightarrow> False)"

text \<open>
  The test of the \<^verbatim>\<open>switch\<close> in the cases for \<^verbatim>\<open>if\<close>, \<^verbatim>\<open>switch\<close> and \<^verbatim>\<open>for\<close>: the
  condition is an identifier that is the name of a multi-wildcard.
\<close>

definition isAnyIdent :: "env \<Rightarrow> node \<Rightarrow> bool" where
  "isAnyIdent e x =
     (case x of Ident sp n \<Rightarrow> isWildName e n \<and> any (info e (fromWildName e n)) | _ \<Rightarrow> False)"

definition nameRxsOk :: "varInfo \<Rightarrow> node \<Rightarrow> bool" where
  "nameRxsOk vi nd =
     list_all (\<lambda>rx. case nd of Ident sp y \<Rightarrow> rx y | _ \<Rightarrow> False) (nameRxs vi)"

definition needExprOk :: "env \<Rightarrow> mstate \<Rightarrow> varInfo \<Rightarrow> node \<Rightarrow> bool res" where
  "needExprOk e st vi nd =
     (if \<not> needExpr vi then Inr True
      else if \<not> isExpr nd then Inr False
      else (case TypeOf e nd of
              None \<Rightarrow> Inr False
            | Some t \<Rightarrow>
                if comp vi \<and> \<not> Comparable e t then Inr False
                else typesOk e (scope st) t (types vi)))"

text \<open>
  The first two loops of \<^verbatim>\<open>matcher.cases\<close>, which call no matcher: the result is the
  list \<^verbatim>\<open>left\<close> of wildcard identifiers, or \<open>None\<close> where the function returns false.
\<close>

definition isClause :: "node \<Rightarrow> bool" where
  "isClause n = (case n of CaseClause sp a b \<Rightarrow> True | CommClause sp a b \<Rightarrow> True | _ \<Rightarrow> False)"

definition caseIdent :: "env \<Rightarrow> node \<Rightarrow> node \<Rightarrow> node option" where
  "caseIdent e ex bstmt =
     (case bstmt of
        ExprStmt sp b \<Rightarrow>
          (case b of
             Ident sp' bn \<Rightarrow>
               if bn \<noteq> ''gogrep_body'' then None
               else if isWildIdent e ex then Some ex else None
           | _ \<Rightarrow> None)
      | _ \<Rightarrow> None)"

definition caseLeft :: "env \<Rightarrow> node \<Rightarrow> (node option) res" where
  "caseLeft e stmt =
     (case stmt of
        CaseClause sp l b \<Rightarrow>
          if length l \<noteq> 1 \<or> length b \<noteq> 1 then Inr None
          else Inr (caseIdent e (l ! 0) (b ! 0))
      | CommClause sp c b \<Rightarrow>
          if c = NilNode \<or> length b \<noteq> 1 then Inr None
          else (case c of
                  ExprStmt sp' x \<Rightarrow> Inr (caseIdent e x (b ! 0))
                | _ \<Rightarrow> Inl (Panic ''interface conversion: not *ast.ExprStmt''))
      | _ \<Rightarrow> Inr None)"

fun casesLeft :: "env \<Rightarrow> node list \<Rightarrow> (node list option) res" where
  "casesLeft e [] = Inr (Some [])"
| "casesLeft e (s # ss) =
     (case caseLeft e s of
        Inl f \<Rightarrow> Inl f
      | Inr None \<Rightarrow> Inr None
      | Inr (Some x) \<Rightarrow>
          (case casesLeft e ss of
             Inl f \<Rightarrow> Inl f
           | Inr None \<Rightarrow> Inr None
           | Inr (Some xs) \<Rightarrow> Inr (Some (x # xs))))"

text \<open>
  \<^verbatim>\<open>matcher.node\<close>, \<^verbatim>\<open>matcher.nodes\<close> and the functions between them call each other, and
  the recursion of \<^verbatim>\<open>matcher.node\<close> through a bound capture is not structural. The
  functions below are therefore written with the recursive \<^verbatim>\<open>m.node\<close> as a parameter \<open>m\<close>
  (of type \<open>matcher\<close>); \<open>mnode\<close> closes the recursion at the end of this section, by
  recursion on the fuel. The \<^verbatim>\<open>for\<close> loop of \<^verbatim>\<open>matcher.nodes\<close> takes fuel as well, one
  unit for each iteration.
\<close>

type_synonym matcher = "node \<Rightarrow> node \<Rightarrow> mstate \<Rightarrow> matchres"

text \<open>
  The loops over two lists of equal length, with an early exit at the first mismatch:
  the declarations and imports of a file, and the fields of \<^verbatim>\<open>matcher.fields\<close>. The
  index into the second list panics where that list is too short.
\<close>

fun nodeEach :: "matcher \<Rightarrow> node list \<Rightarrow> node list \<Rightarrow> mstate \<Rightarrow> matchres" where
  "nodeEach m [] ys st = ret True st"
| "nodeEach m (x # xs) [] st = Inl (Panic ''index out of range'')"
| "nodeEach m (x # xs) (y # ys) st = andAlso (m x y) (nodeEach m xs ys) st"

definition fields :: "matcher \<Rightarrow> node list option \<Rightarrow> node list option \<Rightarrow> mstate \<Rightarrow> matchres" where
  "fields m fields1 fields2 st =
    (case fields1 of
       None \<Rightarrow> ret (fields2 = None) st
     | Some list1 \<Rightarrow>
         (case fields2 of
            None \<Rightarrow> ret False st
          | Some list2 \<Rightarrow>
              if length list1 \<noteq> length list2 then ret False st
              else nodeEach m list1 list2 st))"

text \<open>
  The loop \<^verbatim>\<open>for i := range y.Names\<close> of the value specification in aggressive mode;
  the last list argument holds the indices still to visit.
\<close>

fun valueSpecAny ::
  "matcher \<Rightarrow> node list \<Rightarrow> node list \<Rightarrow> node list \<Rightarrow> node list \<Rightarrow> nat list \<Rightarrow> mstate \<Rightarrow> matchres"
where
  "valueSpecAny m xnames xvalues ynames yvalues [] st = ret False st"
| "valueSpecAny m xnames xvalues ynames yvalues (i # is) st =
    (if \<not> i < length xnames then Inl (Panic ''index out of range'')
     else
      (case m (xnames ! i) (ynames ! i) st of
         Inl f \<Rightarrow> Inl f
       | Inr (b, st') \<Rightarrow>
           if \<not> b then valueSpecAny m xnames xvalues ynames yvalues is st'
           else if xvalues = [] then ret True st'
           else if \<not> i < length xvalues \<or> \<not> i < length yvalues
           then Inl (Panic ''index out of range'')
           else
            (case m (xvalues ! i) (yvalues ! i) st' of
               Inl f \<Rightarrow> Inl f
             | Inr (b', st'') \<Rightarrow>
                 if b' then ret True st''
                 else valueSpecAny m xnames xvalues ynames yvalues is st'')))"

subsection \<open>\<^verbatim>\<open>matcher.nodes\<close>\<close>

text \<open>
  \<open>wouldMatch\<close> is the closure of that name; \<open>nodesEnd\<close> is the code after the loop;
  \<open>nodesMismatch\<close> is the end of the loop body, from the test for the end of a partial
  match on; \<open>nodesBody\<close> is the loop body. The argument \<open>cont\<close> of the last two is the next
  iteration of the loop (\<^verbatim>\<open>continue\<close>).
\<close>

definition wouldMatch :: "matcher \<Rightarrow> nodeList \<Rightarrow> loopst \<Rightarrow> mstate \<Rightarrow> matchres" where
  "wouldMatch m ns2 l st =
    (if wildName l = '''' \<or> wildName l = ''_'' then ret True st
     else
      (case slice ns2 (wildStart l) (i2 l) of
         Inl f \<Rightarrow> Inl f
       | Inr list \<Rightarrow>
           (case mvalues st (wildName l) of
              None \<Rightarrow> ret True (st\<lparr>mvalues := (mvalues st)(wildName l \<mapsto> list)\<rparr>)
            | Some prev \<Rightarrow>
                (case m prev list st of
                   Inl f \<Rightarrow> Inl f
                 | Inr (b, st') \<Rightarrow>
                     if \<not> b then ret False st'
                     else ret True (st'\<lparr>mvalues := (mvalues st')(wildName l \<mapsto> list)\<rparr>)))))"

definition nodesEnd :: "matcher \<Rightarrow> nodeList \<Rightarrow> loopst \<Rightarrow> mstate \<Rightarrow> (node \<times> mstate) res" where
  "nodesEnd m ns2 l st =
    (case wouldMatch m ns2 l st of
       Inl f \<Rightarrow> Inl f
     | Inr (b, st') \<Rightarrow>
         if \<not> b then Inr (NilNode, st')
         else (case slice ns2 (partialStart l) (partialEnd l) of
                 Inl f \<Rightarrow> Inl f
               | Inr r \<Rightarrow> Inr (r, st')))"

definition nodesMismatch ::
  "(loopst \<Rightarrow> mstate \<Rightarrow> (node \<times> mstate) res) \<Rightarrow> matcher \<Rightarrow> nodeList \<Rightarrow> nodeList \<Rightarrow> bool
     \<Rightarrow> loopst \<Rightarrow> mstate \<Rightarrow> (node \<times> mstate) res"
where
  "nodesMismatch cont m ns1 ns2 partial l st =
    (if partial \<and> i1 l = len ns1 \<and> wildName l = '''' then
       nodesEnd m ns2 (l\<lparr>partialEnd := i2 l\<rparr>) st
     else if 0 < next2 l \<and> next2 l \<le> len ns2 \<and> (i1 l \<noteq> next1 l \<or> i2 l \<noteq> next2 l) then
       cont (l\<lparr>i1 := next1 l, i2 := next2 l\<rparr>) (st\<lparr>mvalues := oldMatches l\<rparr>)
     else Inr (NilNode, st))"

definition nodesBody ::
  "(loopst \<Rightarrow> mstate \<Rightarrow> (node \<times> mstate) res) \<Rightarrow> env \<Rightarrow> matcher \<Rightarrow> nodeList \<Rightarrow> nodeList \<Rightarrow> bool
     \<Rightarrow> loopst \<Rightarrow> mstate \<Rightarrow> (node \<times> mstate) res"
where
  "nodesBody cont e m ns1 ns2 partial l st =
    (if i1 l < len ns1 then
       (let n1 = at ns1 (i1 l); vi = info e (fromWildNode e n1) in
        if any vi then
          cont ((if name vi \<noteq> wildName l then l\<lparr>wildStart := i2 l, wildName := name vi\<rparr> else l)
                  \<lparr>next1 := i1 l, next2 := i2 l + 1, oldMatches := mvalues st, i1 := i1 l + 1\<rparr>)
               st
        else
         (let l' = (if partial \<and> i1 l = 0
                    then l\<lparr>next2 := i2 l + 1, partialStart := i2 l, oldMatches := mvalues st\<rparr>
                    else l) in
          case (if i2 l' < len ns2
                then andAlso (wouldMatch m ns2 l') (m n1 (at ns2 (i2 l'))) st
                else ret False st) of
            Inl f \<Rightarrow> Inl f
          | Inr (b, st') \<Rightarrow>
              if b then cont (l'\<lparr>wildName := '''', i1 := i1 l' + 1, i2 := i2 l' + 1\<rparr>) st'
              else nodesMismatch cont m ns1 ns2 partial l' st'))
     else nodesMismatch cont m ns1 ns2 partial l st)"

primrec nodesLoop ::
  "nat \<Rightarrow> env \<Rightarrow> matcher \<Rightarrow> nodeList \<Rightarrow> nodeList \<Rightarrow> bool \<Rightarrow> loopst \<Rightarrow> mstate \<Rightarrow> (node \<times> mstate) res"
where
  "nodesLoop 0 e m ns1 ns2 partial l st = Inl OutOfFuel"
| "nodesLoop (Suc n) e m ns1 ns2 partial l st =
    (if i1 l < len ns1 \<or> i2 l < len ns2
     then nodesBody (nodesLoop n e m ns1 ns2 partial) e m ns1 ns2 partial l st
     else nodesEnd m ns2 l st)"

definition nodes ::
  "nat \<Rightarrow> env \<Rightarrow> matcher \<Rightarrow> nodeList \<Rightarrow> nodeList \<Rightarrow> bool \<Rightarrow> mstate \<Rightarrow> (node \<times> mstate) res"
where
  "nodes n e m ns1 ns2 partial st =
    (if len ns1 = 0 then
       (if len ns2 = 0 then Inr (NList (fst ns2) (snd ns2), st) else Inr (NilNode, st))
     else
       nodesLoop n e m ns1 ns2 partial
         \<lparr>i1 = 0, i2 = 0, next1 = 0, next2 = 0, wildName = '''', wildStart = 0,
          partialStart = 0, partialEnd = len ns2, oldMatches = mvalues st\<rparr> st)"

definition exprs :: "nat \<Rightarrow> env \<Rightarrow> matcher \<Rightarrow> node list \<Rightarrow> node list \<Rightarrow> mstate \<Rightarrow> matchres" where
  "exprs n e m exprs1 exprs2 st = notNil (nodes n e m (ExprL, exprs1) (ExprL, exprs2) False st)"

definition idents :: "nat \<Rightarrow> env \<Rightarrow> matcher \<Rightarrow> node list \<Rightarrow> node list \<Rightarrow> mstate \<Rightarrow> matchres" where
  "idents n e m ids1 ids2 st = notNil (nodes n e m (IdentL, ids1) (IdentL, ids2) False st)"

definition stmts :: "nat \<Rightarrow> env \<Rightarrow> matcher \<Rightarrow> node list \<Rightarrow> node list \<Rightarrow> mstate \<Rightarrow> matchres" where
  "stmts n e m stmts1 stmts2 st = notNil (nodes n e m (StmtL, stmts1) (StmtL, stmts2) False st)"

definition specs :: "nat \<Rightarrow> env \<Rightarrow> matcher \<Rightarrow> node list \<Rightarrow> node list \<Rightarrow> mstate \<Rightarrow> matchres" where
  "specs n e m specs1 specs2 st = notNil (nodes n e m (SpecL, specs1) (SpecL, specs2) False st)"

definition cases :: "nat \<Rightarrow> env \<Rightarrow> matcher \<Rightarrow> node list \<Rightarrow> node list \<Rightarrow> mstate \<Rightarrow> matchres" where
  "cases n e m stmts1 stmts2 st =
    (if \<not> list_all isClause stmts2 then ret False st
     else
      (case casesLeft e stmts1 of
         Inl f \<Rightarrow> Inl f
       | Inr None \<Rightarrow> ret False st
       | Inr (Some left) \<Rightarrow> notNil (nodes n e m (IdentL, left) (StmtL, stmts2) False st)))"

subsection \<open>\<^verbatim>\<open>matcher.node\<close>\<close>

text \<open>
  \<open>nodeStep\<close> is the body of \<^verbatim>\<open>matcher.node\<close>: \<open>m\<close> stands for its recursive calls and \<open>n\<close>
  is the fuel handed to the loops of \<^verbatim>\<open>matcher.nodes\<close>. It is written in two parts:
  \<open>seatScope\<close> is the first \<^verbatim>\<open>switch\<close>, which re-seats \<^verbatim>\<open>m.scope\<close>, and \<open>nodeCases\<close> is the
  rest. In aggressive mode a nil candidate is exchanged with the pattern, so \<open>ex\<close> and
  \<open>nd\<close> are the pattern and the candidate after the exchange.
\<close>

definition seatScope :: "env \<Rightarrow> node \<Rightarrow> mstate \<Rightarrow> mstate" where
  "seatScope e nd0 st0 = (if isScopeNode nd0 then st0\<lparr>scope := Scopes e nd0\<rparr> else st0)"

definition nodeCases :: "nat \<Rightarrow> env \<Rightarrow> matcher \<Rightarrow> node \<Rightarrow> node \<Rightarrow> mstate \<Rightarrow> matchres" where
  "nodeCases n e m expr0 nd0 st =
    (if \<not> aggressive e \<and> (expr0 = NilNode \<or> nd0 = NilNode) then ret (expr0 = nd0) st
     else if aggressive e \<and> expr0 = NilNode \<and> nd0 = NilNode then ret True st
     else
      (let ex = (if aggressive e \<and> nd0 = NilNode then nd0 else expr0);
           nd = (if aggressive e \<and> nd0 = NilNode then expr0 else nd0) in
       case ex of
         NilNode \<Rightarrow> ret (case nd of Ident sp y \<Rightarrow> y = ''_'' | _ \<Rightarrow> False) st

       | File sp xname xdecls ximports \<Rightarrow>
           (case nd of
              File sp' yname ydecls yimports \<Rightarrow>
                andAlso (\<lambda>s. m xname yname s)
                  (\<lambda>s. if length xdecls \<noteq> length ydecls \<or> length ximports \<noteq> length yimports
                        then ret False s
                        else andAlso (\<lambda>s. nodeEach m xdecls ydecls s)
                                     (\<lambda>s. nodeEach m ximports yimports s) s) st
            | _ \<Rightarrow> ret False st)

       | Ident sp x \<Rightarrow>
           if \<not> isWildName e x then ret (case nd of Ident sp' y \<Rightarrow> x = y | _ \<Rightarrow> False) st
           else if nd = NilNode then ret False st
           else
            (let vi = info e (fromWildName e x) in
             if any vi then ret False st
             else if \<not> nameRxsOk vi nd then ret False st
             else
              (case needExprOk e st vi nd of
                 Inl f \<Rightarrow> Inl f
               | Inr ok \<Rightarrow>
                   if \<not> ok then ret False st
                   else if name vi = ''_'' then ret True st
                   else
                    (case mvalues st (name vi) of
                       None \<Rightarrow> ret True (st\<lparr>mvalues := (mvalues st)(name vi \<mapsto> nd)\<rparr>)
                     | Some prev \<Rightarrow> m prev nd st)))

       | NList lk xs \<Rightarrow>
           (case lk of
              ExprL \<Rightarrow> (case nd of
                          NList lk' ys \<Rightarrow> if lk' = ExprL then exprs n e m xs ys st else ret False st
                        | _ \<Rightarrow> ret False st)
            | StmtL \<Rightarrow> (case nd of
                          NList lk' ys \<Rightarrow> if lk' = StmtL then stmts n e m xs ys st else ret False st
                        | _ \<Rightarrow> ret False st)
            | _ \<Rightarrow> Inl (Panic ''unexpected node''))

       | BasicLit sp xkind xvalue \<Rightarrow>
           ret (case nd of BasicLit sp' ykind yvalue \<Rightarrow> xkind = ykind \<and> xvalue = yvalue
                | _ \<Rightarrow> False) st
       | CompositeLit sp xtype xelts \<Rightarrow>
           (case nd of
              CompositeLit sp' ytype yelts \<Rightarrow>
                andAlso (\<lambda>s. m xtype ytype s) (\<lambda>s. exprs n e m xelts yelts s) st
            | _ \<Rightarrow> ret False st)
       | FuncLit sp xtype xbody \<Rightarrow>
           (case nd of
              FuncLit sp' ytype ybody \<Rightarrow>
                andAlso (\<lambda>s. m xtype ytype s) (\<lambda>s. m xbody ybody s) st
            | _ \<Rightarrow> ret False st)

       | ArrayType sp xlen xelt \<Rightarrow>
           (case nd of
              ArrayType sp' ylen yelt \<Rightarrow>
                andAlso (\<lambda>s. m xlen ylen s) (\<lambda>s. m xelt yelt s) st
            | _ \<Rightarrow> ret False st)
       | MapType sp xkey xvalue \<Rightarrow>
           (case nd of
              MapType sp' ykey yvalue \<Rightarrow>
                andAlso (\<lambda>s. m xkey ykey s) (\<lambda>s. m xvalue yvalue s) st
            | _ \<Rightarrow> ret False st)
       | StructType sp xfields \<Rightarrow>
           (case nd of
              StructType sp' yfields \<Rightarrow> fields m xfields yfields st
            | _ \<Rightarrow> ret False st)
       | Field sp xnames xtype \<Rightarrow>
           (case nd of
              Field sp' ynames ytype \<Rightarrow>
                andAlso (\<lambda>s. idents n e m xnames ynames s) (\<lambda>s. m xtype ytype s) st
            | _ \<Rightarrow> ret False st)
       | FuncType sp xparams xresults \<Rightarrow>
           (case nd of
              FuncType sp' yparams yresults \<Rightarrow>
                andAlso (\<lambda>s. fields m xparams yparams s) (\<lambda>s. fields m xresults yresults s) st
            | _ \<Rightarrow> ret False st)
       | InterfaceType sp xmethods \<Rightarrow>
           (case nd of
              InterfaceType sp' ymethods \<Rightarrow> fields m xmethods ymethods st
            | _ \<Rightarrow> ret False st)
       | ChanType sp xdir xvalue \<Rightarrow>
           (case nd of
              ChanType sp' ydir yvalue \<Rightarrow>
                if xdir = ydir then m xvalue yvalue st else ret False st
            | _ \<Rightarrow> ret False st)

       | Ellipsis sp xelt \<Rightarrow>
           (case nd of Ellipsis sp' yelt \<Rightarrow> m xelt yelt st | _ \<Rightarrow> ret False st)
       | ParenExpr sp xx \<Rightarrow>
           (case nd of ParenExpr sp' yx \<Rightarrow> m xx yx st | _ \<Rightarrow> ret False st)
       | UnaryExpr sp xop xx \<Rightarrow>
           (case nd of
              UnaryExpr sp' yop yx \<Rightarrow> if xop = yop then m xx yx st else ret False st
            | _ \<Rightarrow> ret False st)
       | BinaryExpr sp xx xop xy \<Rightarrow>
           (case nd of
              BinaryExpr sp' yx yop yy \<Rightarrow>
                if xop = yop
                then andAlso (\<lambda>s. m xx yx s) (\<lambda>s. m xy yy s) st
                else ret False st
            | _ \<Rightarrow> ret False st)
       | CallExpr sp xfun xargs xellipsis \<Rightarrow>
           (case nd of
              CallExpr sp' yfun yargs yellipsis \<Rightarrow>
                andAlso (\<lambda>s. m xfun yfun s)
                  (andAlso (\<lambda>s. exprs n e m xargs yargs s)
                           (\<lambda>s. ret (bothValid xellipsis yellipsis) s)) st
            | _ \<Rightarrow> ret False st)
       | KeyValueExpr sp xkey xvalue \<Rightarrow>
           (case nd of
              KeyValueExpr sp' ykey yvalue \<Rightarrow>
                andAlso (\<lambda>s. m xkey ykey s) (\<lambda>s. m xvalue yvalue s) st
            | _ \<Rightarrow> ret False st)
       | StarExpr sp xx \<Rightarrow>
           (case nd of StarExpr sp' yx \<Rightarrow> m xx yx st | _ \<Rightarrow> ret False st)
       | SelectorExpr sp xx xsel \<Rightarrow>
           (case nd of
              SelectorExpr sp' yx ysel \<Rightarrow>
                andAlso (\<lambda>s. m xx yx s) (\<lambda>s. m xsel ysel s) st
            | _ \<Rightarrow> ret False st)
       | IndexExpr sp xx xindex \<Rightarrow>
           (case nd of
              IndexExpr sp' yx yindex \<Rightarrow>
                andAlso (\<lambda>s. m xx yx s) (\<lambda>s. m xindex yindex s) st
            | _ \<Rightarrow> ret False st)
       | SliceExpr sp xx xlow xhigh xmax \<Rightarrow>
           (case nd of
              SliceExpr sp' yx ylow yhigh ymax \<Rightarrow>
                andAlso (\<lambda>s. m xx yx s)
                  (andAlso (\<lambda>s. m xlow ylow s)
                     (andAlso (\<lambda>s. m xhigh yhigh s) (\<lambda>s. m xmax ymax s))) st
            | _ \<Rightarrow> ret False st)
       | TypeAssertExpr sp xx xtype \<Rightarrow>
           (case nd of
              TypeAssertExpr sp' yx ytype \<Rightarrow>
                andAlso (\<lambda>s. m xx yx s) (\<lambda>s. m xtype ytype s) st
            | _ \<Rightarrow> ret False st)

       | GenDecl sp xtok xspecs \<Rightarrow>
           orElse (\<lambda>s. if aggressive e \<and> length xspecs = 1 then m (xspecs ! 0) nd s
                        else ret False s)
             (\<lambda>s. case nd of
                     GenDecl sp' ytok yspecs \<Rightarrow>
                       if xtok = ytok then specs n e m xspecs yspecs s else ret False s
                   | _ \<Rightarrow> ret False s) st
       | FuncDecl sp xrecv xname xtype xbody \<Rightarrow>
           (case nd of
              FuncDecl sp' yrecv yname ytype ybody \<Rightarrow>
                andAlso (\<lambda>s. fields m xrecv yrecv s)
                  (andAlso (\<lambda>s. m xname yname s)
                     (andAlso (\<lambda>s. m xtype ytype s) (\<lambda>s. m xbody ybody s))) st
            | _ \<Rightarrow> ret False st)

       | ValueSpec sp xnames xtype xvalues \<Rightarrow>
           (case nd of
              ValueSpec sp' ynames ytype yvalues \<Rightarrow>
                andAlso (\<lambda>s. m xtype ytype s)
                  (orElse (\<lambda>s. if aggressive e \<and> length xnames = 1
                                then valueSpecAny m xnames xvalues ynames yvalues [0..<length ynames] s
                                else ret False s)
                     (andAlso (\<lambda>s. idents n e m xnames ynames s)
                              (\<lambda>s. exprs n e m xvalues yvalues s))) st
            | _ \<Rightarrow> ret False st)

       | ExprStmt sp xx \<Rightarrow>
           if isWildIdent e xx then m xx nd st
           else (case nd of ExprStmt sp' yx \<Rightarrow> m xx yx st | _ \<Rightarrow> ret False st)
       | DeclStmt sp xdecl \<Rightarrow>
           (case nd of DeclStmt sp' ydecl \<Rightarrow> m xdecl ydecl st | _ \<Rightarrow> ret False st)

       | EmptyStmt sp \<Rightarrow> ret (case nd of EmptyStmt sp' \<Rightarrow> True | _ \<Rightarrow> False) st
       | LabeledStmt sp xlabel xstmt \<Rightarrow>
           (case nd of
              LabeledStmt sp' ylabel ystmt \<Rightarrow>
                andAlso (\<lambda>s. m xlabel ylabel s) (\<lambda>s. m xstmt ystmt s) st
            | _ \<Rightarrow> ret False st)
       | SendStmt sp xchan xvalue \<Rightarrow>
           (case nd of
              SendStmt sp' ychan yvalue \<Rightarrow>
                andAlso (\<lambda>s. m xchan ychan s) (\<lambda>s. m xvalue yvalue s) st
            | _ \<Rightarrow> ret False st)
       | IncDecStmt sp xx xtok \<Rightarrow>
           (case nd of
              IncDecStmt sp' yx ytok \<Rightarrow> if xtok = ytok then m xx yx st else ret False st
            | _ \<Rightarrow> ret False st)
       | AssignStmt sp xlhs xtok xrhs \<Rightarrow>
           (case nd of
              AssignStmt sp' ylhs ytok yrhs \<Rightarrow>
                if xtok = ytok
                then andAlso (\<lambda>s. exprs n e m xlhs ylhs s) (\<lambda>s. exprs n e m xrhs yrhs s) st
                else ret False st
            | _ \<Rightarrow> ret False st)
       | GoStmt sp xcall \<Rightarrow>
           (case nd of GoStmt sp' ycall \<Rightarrow> m xcall ycall st | _ \<Rightarrow> ret False st)
       | DeferStmt sp xcall \<Rightarrow>
           (case nd of DeferStmt sp' ycall \<Rightarrow> m xcall ycall st | _ \<Rightarrow> ret False st)
       | ReturnStmt sp xresults \<Rightarrow>
           (case nd of
              ReturnStmt sp' yresults \<Rightarrow> exprs n e m xresults yresults st
            | _ \<Rightarrow> ret False st)
       | BranchStmt sp xtok xlabel \<Rightarrow>
           (case nd of
              BranchStmt sp' ytok ylabel \<Rightarrow>
                if xtok = ytok then m (maybeNilIdent xlabel) (maybeNilIdent ylabel) st
                else ret False st
            | _ \<Rightarrow> ret False st)
       | BlockStmt sp xlist \<Rightarrow>
           orElse (\<lambda>s. if aggressive e then m (NList StmtL xlist) nd s else ret False s)
             (\<lambda>s. case nd of
                     BlockStmt sp' ylist \<Rightarrow>
                       orElse (\<lambda>s. cases n e m xlist ylist s) (\<lambda>s. stmts n e m xlist ylist s) s
                   | NilBlockStmt \<Rightarrow> Inl (Panic ''nil pointer dereference'')
                   | _ \<Rightarrow> ret False s) st
       | NilBlockStmt \<Rightarrow>
           if aggressive e then Inl (Panic ''nil pointer dereference'')
           else (case nd of
                   BlockStmt sp' ylist \<Rightarrow> Inl (Panic ''nil pointer dereference'')
                 | NilBlockStmt \<Rightarrow> Inl (Panic ''nil pointer dereference'')
                 | _ \<Rightarrow> ret False st)
       | IfStmt sp xinit xcond xbody xelse \<Rightarrow>
           (case nd of
              IfStmt sp' yinit ycond ybody yelse \<Rightarrow>
                if xinit = NilNode \<and> isAnyIdent e xcond then
                  andAlso (\<lambda>s. m (NList StmtL [ExprStmt (nodeSpan xcond) xcond])
                                  (initExprList yinit ycond NilNode) s)
                          (\<lambda>s. m xbody ybody s) st
                else
                  andAlso (\<lambda>s. m xinit yinit s)
                    (andAlso (\<lambda>s. m xcond ycond s)
                       (andAlso (\<lambda>s. m xbody ybody s) (\<lambda>s. m xelse yelse s))) st
            | _ \<Rightarrow> ret False st)
       | CaseClause sp xlist xbody \<Rightarrow>
           (case nd of
              CaseClause sp' ylist ybody \<Rightarrow>
                andAlso (\<lambda>s. exprs n e m xlist ylist s) (\<lambda>s. stmts n e m xbody ybody s) st
            | _ \<Rightarrow> ret False st)
       | SwitchStmt sp xinit xtag xbody \<Rightarrow>
           (case nd of
              SwitchStmt sp' yinit ytag ybody \<Rightarrow>
                if xinit = NilNode \<and> isAnyIdent e xtag then
                  andAlso (\<lambda>s. m (NList StmtL [ExprStmt (nodeSpan xtag) xtag])
                                  (initExprList yinit ytag NilNode) s)
                          (\<lambda>s. m xbody ybody s) st
                else
                  andAlso (\<lambda>s. m xinit yinit s)
                    (andAlso (\<lambda>s. m xtag ytag s) (\<lambda>s. m xbody ybody s)) st
            | _ \<Rightarrow> ret False st)
       | TypeSwitchStmt sp xinit xassign xbody \<Rightarrow>
           (case nd of
              TypeSwitchStmt sp' yinit yassign ybody \<Rightarrow>
                andAlso (\<lambda>s. m xinit yinit s)
                  (andAlso (\<lambda>s. m xassign yassign s) (\<lambda>s. m xbody ybody s)) st
            | _ \<Rightarrow> ret False st)
       | CommClause sp xcomm xbody \<Rightarrow>
           (case nd of
              CommClause sp' ycomm ybody \<Rightarrow>
                andAlso (\<lambda>s. m xcomm ycomm s) (\<lambda>s. stmts n e m xbody ybody s) st
            | _ \<Rightarrow> ret False st)
       | SelectStmt sp xbody \<Rightarrow>
           (case nd of SelectStmt sp' ybody \<Rightarrow> m xbody ybody st | _ \<Rightarrow> ret False st)
       | ForStmt sp xinit xcond xpost xbody \<Rightarrow>
           (case nd of
              ForStmt sp' yinit ycond ypost ybody \<Rightarrow>
                if xinit = NilNode \<and> xpost = NilNode \<and> isAnyIdent e xcond then
                  andAlso (\<lambda>s. m (NList StmtL [ExprStmt (nodeSpan xcond) xcond])
                                  (initExprList yinit ycond ypost) s)
                          (\<lambda>s. m xbody ybody s) st
                else
                  andAlso (\<lambda>s. m xinit yinit s)
                    (andAlso (\<lambda>s. m xcond ycond s)
                       (andAlso (\<lambda>s. m xpost ypost s) (\<lambda>s. m xbody ybody s))) st
            | _ \<Rightarrow> ret False st)
       | RangeStmt sp xkey xvalue xx xbody \<Rightarrow>
           (case nd of
              RangeStmt sp' ykey yvalue yx ybody \<Rightarrow>
                andAlso (\<lambda>s. m xkey ykey s)
                  (andAlso (\<lambda>s. m xvalue yvalue s)
                     (andAlso (\<lambda>s. m xx yx s) (\<lambda>s. m xbody ybody s))) st
            | _ \<Rightarrow> ret False st)
       | Other sp kind \<Rightarrow> Inl (Panic ''unexpected node'')))"

definition nodeStep :: "nat \<Rightarrow> env \<Rightarrow> matcher \<Rightarrow> node \<Rightarrow> node \<Rightarrow> mstate \<Rightarrow> matchres" where
  "nodeStep n e m expr0 nd0 st0 = nodeCases n e m expr0 nd0 (seatScope e nd0 st0)"

text \<open>
  \<open>mnode k e\<close> is \<^verbatim>\<open>m.node\<close> with fuel \<open>k\<close> (the name \<open>node\<close> is the type of syntax nodes).
\<close>

primrec mnode :: "nat \<Rightarrow> env \<Rightarrow> node \<Rightarrow> node \<Rightarrow> mstate \<Rightarrow> matchres" where
  "mnode 0 e = (\<lambda>expr0 nd0 st. Inl OutOfFuel)"
| "mnode (Suc k) e = nodeStep k e (mnode k e)"

section \<open>Walking a tree and the commands\<close>

text \<open>
  \<^verbatim>\<open>nodeLists\<close>: the lists embedded in a node, the empty ones left out.
\<close>

definition addList :: "node list \<Rightarrow> listKind \<Rightarrow> node list \<Rightarrow> node list" where
  "addList ls lk xs = (if length xs > 0 then ls @ [NList lk xs] else ls)"

definition nodeLists :: "node \<Rightarrow> node list" where
  "nodeLists n = (case n of
      CompositeLit sp t elts \<Rightarrow> addList [] ExprL elts
    | CallExpr sp f args ell \<Rightarrow> addList [] ExprL args
    | AssignStmt sp lhs tok rhs \<Rightarrow> addList (addList [] ExprL lhs) ExprL rhs
    | ReturnStmt sp results \<Rightarrow> addList [] ExprL results
    | ValueSpec sp names t vals \<Rightarrow> addList [] ExprL vals
    | BlockStmt sp l \<Rightarrow> addList [] StmtL l
    | CaseClause sp l body \<Rightarrow> addList (addList [] ExprL l) StmtL body
    | CommClause sp c body \<Rightarrow> addList [] StmtL body
    | _ \<Rightarrow> [])"

text \<open>
  The methods \<^verbatim>\<open>Pos\<close> and \<^verbatim>\<open>End\<close>. Those of the list types are declared in \<^verbatim>\<open>match.go\<close>:
  the position of the first element and the end of the last one, so they panic on an
  empty list. A method call on the nil interface or on the nil block panics.
\<close>

fun nodePos :: "node \<Rightarrow> pos res" where
  "nodePos NilNode = Inl (Panic ''nil pointer dereference'')"
| "nodePos NilBlockStmt = Inl (Panic ''nil pointer dereference'')"
| "nodePos (NList lk []) = Inl (Panic ''index out of range'')"
| "nodePos (NList lk (x # xs)) = nodePos x"
| "nodePos n = Inr (fst (nodeSpan n))"

fun nodeEnd :: "node \<Rightarrow> pos res" where
  "nodeEnd NilNode = Inl (Panic ''nil pointer dereference'')"
| "nodeEnd NilBlockStmt = Inl (Panic ''nil pointer dereference'')"
| "nodeEnd (NList lk []) = Inl (Panic ''index out of range'')"
| "nodeEnd (NList lk [x]) = nodeEnd x"
| "nodeEnd (NList lk (x # y # ys)) = nodeEnd (NList lk (y # ys))"
| "nodeEnd n = Inr (snd (nodeSpan n))"

definition posRange :: "node \<Rightarrow> span res" where
  "posRange found =
     (case nodePos found of
        Inl f \<Rightarrow> Inl f
      | Inr p \<Rightarrow> (case nodeEnd found of Inl f \<Rightarrow> Inl f | Inr q \<Rightarrow> Inr (p, q)))"

definition asStmtList :: "node \<Rightarrow> node list option" where
  "asStmtList n = (case n of NList lk xs \<Rightarrow> if lk = StmtL then Some xs else None | _ \<Rightarrow> None)"

definition topNode :: "nat \<Rightarrow> env \<Rightarrow> node \<Rightarrow> node \<Rightarrow> mstate \<Rightarrow> (node \<times> mstate) res" where
  "topNode k e exprNode nd st =
     (case asStmtList exprNode of
        Some sts1 \<Rightarrow>
          (case asStmtList nd of
             Some sts2 \<Rightarrow> nodes k e (mnode k e) (StmtL, sts1) (StmtL, sts2) True st
           | None \<Rightarrow>
               (case mnode k e exprNode nd st of
                  Inl f \<Rightarrow> Inl f
                | Inr (b, st') \<Rightarrow> Inr (if b then nd else NilNode, st')))
      | None \<Rightarrow>
          (case mnode k e exprNode nd st of
             Inl f \<Rightarrow> Inl f
           | Inr (b, st') \<Rightarrow> Inr (if b then nd else NilNode, st')))"

text \<open>
  A loop over a list that threads a state and stops at the first panic.
\<close>

fun forEach :: "('a \<Rightarrow> 's \<Rightarrow> 's res) \<Rightarrow> 'a list \<Rightarrow> 's \<Rightarrow> 's res" where
  "forEach f [] s = Inr s"
| "forEach f (x # xs) s = (case f x s of Inl y \<Rightarrow> Inl y | Inr s' \<Rightarrow> forEach f xs s')"

text \<open>
  \<^verbatim>\<open>walkWithLists\<close>: \<open>fn\<close> is the callback, which changes a state of type \<open>'s\<close> (the
  variables its closure captures and the matcher). \<^verbatim>\<open>ast.Inspect\<close> also calls \<open>visit\<close>
  with nil after the children of each node; \<open>fn\<close> returns at once on nil and
  \<^verbatim>\<open>nodeLists\<close> of nil is empty, so those calls are left out.
\<close>

definition visit :: "(node \<Rightarrow> node \<Rightarrow> 's \<Rightarrow> 's res) \<Rightarrow> node \<Rightarrow> node \<Rightarrow> 's \<Rightarrow> 's res" where
  "visit fn exprNode nd s =
     (case fn exprNode nd s of
        Inl y \<Rightarrow> Inl y
      | Inr s' \<Rightarrow> forEach (fn exprNode) (nodeLists nd) s')"

definition walkWithLists ::
  "env \<Rightarrow> node \<Rightarrow> node \<Rightarrow> (node \<Rightarrow> node \<Rightarrow> 's \<Rightarrow> 's res) \<Rightarrow> 's \<Rightarrow> 's res"
where
  "walkWithLists e exprNode nd fn s =
     (case nd of
        NList lk xs \<Rightarrow>
          (case (if isExpr exprNode
                 then (case fn (NList ExprL [exprNode]) nd s of
                         Inl y \<Rightarrow> Inl y
                       | Inr s1 \<Rightarrow>
                           fn (NList StmtL [ExprStmt (nodeSpan exprNode) exprNode]) nd s1)
                 else Inr s) of
             Inl y \<Rightarrow> Inl y
           | Inr s2 \<Rightarrow>
               (case fn exprNode nd s2 of
                  Inl y \<Rightarrow> Inl y
                | Inr s3 \<Rightarrow>
                    forEach (\<lambda>x. forEach (visit fn exprNode) (Inspect e x)) xs s3))
      | _ \<Rightarrow> forEach (visit fn exprNode) (Inspect e nd) s)"

text \<open>
  Modelled from the spec: the type \<^verbatim>\<open>exprCmd\<close> of a pipeline stage is declared outside
  \<^verbatim>\<open>match.go\<close>; its fields \<^verbatim>\<open>name\<close> and \<^verbatim>\<open>node\<close> are the operator and the pattern.
\<close>

record exprCmd =
  cmdName :: string
  cmdNode :: node

text \<open>
  \<^verbatim>\<open>cmdRange\<close>. The state of its callback \<^verbatim>\<open>match\<close> is the slice \<^verbatim>\<open>matches\<close>, the set
  \<^verbatim>\<open>seen\<close> and the matcher.
\<close>

type_synonym rangest = "node list \<times> span set \<times> mstate"

definition rangeMatch :: "nat \<Rightarrow> env \<Rightarrow> node \<Rightarrow> node \<Rightarrow> rangest \<Rightarrow> rangest res" where
  "rangeMatch k e exprNode nd s =
     (case s of (matches, seen, st) \<Rightarrow>
        if nd = NilNode then Inr s
        else
         (case topNode k e exprNode nd (st\<lparr>mvalues := Map.empty\<rparr>) of
            Inl f \<Rightarrow> Inl f
          | Inr (found, st') \<Rightarrow>
              if found = NilNode then Inr (matches, seen, st')
              else
               (case posRange found of
                  Inl f \<Rightarrow> Inl f
                | Inr pr \<Rightarrow>
                    if pr \<notin> seen then Inr (matches @ [found], insert pr seen, st')
                    else Inr (matches, seen, st'))))"

definition cmdRange :: "nat \<Rightarrow> env \<Rightarrow> exprCmd \<Rightarrow> node list \<Rightarrow> mstate \<Rightarrow> (node list \<times> mstate) res" where
  "cmdRange k e cmd nds st =
     (case forEach (\<lambda>nd. walkWithLists e (cmdNode cmd) nd (rangeMatch k e)) nds ([], {}, st) of
        Inl f \<Rightarrow> Inl f
      | Inr (matches, seen, st') \<Rightarrow> Inr (matches, st'))"

text \<open>
  \<^verbatim>\<open>cmdFilter\<close>. The state of its callback is the flag \<^verbatim>\<open>any\<close> and the matcher; the loop
  over the candidates resets the flag, walks, and appends to \<^verbatim>\<open>matches\<close>.
\<close>

definition filterMatch :: "nat \<Rightarrow> env \<Rightarrow> node \<Rightarrow> node \<Rightarrow> bool \<times> mstate \<Rightarrow> (bool \<times> mstate) res" where
  "filterMatch k e exprNode nd s =
     (case s of (anyFound, st) \<Rightarrow>
        if nd = NilNode then Inr s
        else
         (case topNode k e exprNode nd (st\<lparr>mvalues := Map.empty\<rparr>) of
            Inl f \<Rightarrow> Inl f
          | Inr (found, st') \<Rightarrow> Inr (if found \<noteq> NilNode then True else anyFound, st')))"

fun cmdFilterLoop ::
  "nat \<Rightarrow> env \<Rightarrow> bool \<Rightarrow> exprCmd \<Rightarrow> node list \<Rightarrow> node list \<Rightarrow> mstate \<Rightarrow> (node list \<times> mstate) res"
where
  "cmdFilterLoop k e wantAny cmd [] matches st = Inr (matches, st)"
| "cmdFilterLoop k e wantAny cmd (nd # nds) matches st =
     (case walkWithLists e (cmdNode cmd) nd (filterMatch k e) (False, st) of
        Inl f \<Rightarrow> Inl f
      | Inr (anyFound, st') \<Rightarrow>
          cmdFilterLoop k e wantAny cmd nds
            (if anyFound = wantAny then matches @ [nd] else matches) st')"

definition cmdFilter ::
  "nat \<Rightarrow> env \<Rightarrow> bool \<Rightarrow> exprCmd \<Rightarrow> node list \<Rightarrow> mstate \<Rightarrow> (node list \<times> mstate) res"
where
  "cmdFilter k e wantAny cmd nds st = cmdFilterLoop k e wantAny cmd nds [] st"

text \<open>
  \<^verbatim>\<open>matcher.matches\<close>: the pipeline. A command name other than \<^verbatim>\<open>x\<close>, \<^verbatim>\<open>g\<close> and \<^verbatim>\<open>v\<close>
  leaves the function variable nil, and the call panics.
\<close>

fun matches :: "nat \<Rightarrow> env \<Rightarrow> exprCmd list \<Rightarrow> node list \<Rightarrow> mstate \<Rightarrow> (node list \<times> mstate) res" where
  "matches k e [] nds st = Inr (nds, st)"
| "matches k e (cmd # cmds) nds st =
     (case (if cmdName cmd = ''x'' then cmdRange k e cmd nds st
            else if cmdName cmd = ''g'' then cmdFilter k e True cmd nds st
            else if cmdName cmd = ''v'' then cmdFilter k e False cmd nds st
            else Inl (Panic ''nil pointer dereference'')) of
        Inl f \<Rightarrow> Inl f
      | Inr (nds', st') \<Rightarrow> matches k e cmds nds' st')"

section \<open>Wildcards of the examples\<close>

text \<open>
  Modelled from the spec: the encoding of wildcards in identifier names and the table
  of wildcards (\<^verbatim>\<open>isWildName\<close>, \<^verbatim>\<open>fromWildName\<close>, \<^verbatim>\<open>matcher.info\<close>) are declared outside
  \<^verbatim>\<open>match.go\<close>. For the concrete examples a pattern is written with the spec's pattern
  syntax: the identifiers \<^verbatim>\<open>$x\<close>, \<^verbatim>\<open>$y\<close> are single wildcards, \<^verbatim>\<open>$*a\<close>, \<^verbatim>\<open>$*b\<close> are
  multi-wildcards, \<^verbatim>\<open>$_\<close> and \<^verbatim>\<open>$*_\<close> discard what they match. The identifier of a wildcard
  is its index in the table; any other name has the identifier \<open>-1\<close>, whose record is
  the zero value.
\<close>

text \<open>
  The order in which \<^verbatim>\<open>ast.Inspect\<close> visits the nodes of a tree, for the node kinds of
  the examples: a node, then its children from left to right. A node of any other kind
  is visited alone.
\<close>

fun inspectEx :: "node \<Rightarrow> node list" where
  "inspectEx (ParenExpr sp x) = ParenExpr sp x # inspectEx x"
| "inspectEx (UnaryExpr sp tok x) = UnaryExpr sp tok x # inspectEx x"
| "inspectEx (StarExpr sp x) = StarExpr sp x # inspectEx x"
| "inspectEx (BinaryExpr sp x tok y) = BinaryExpr sp x tok y # inspectEx x @ inspectEx y"
| "inspectEx (CallExpr sp f args ell) =
     CallExpr sp f args ell # inspectEx f @ concat (map inspectEx args)"
| "inspectEx (ExprStmt sp x) = ExprStmt sp x # inspectEx x"
| "inspectEx (ReturnStmt sp results) = ReturnStmt sp results # concat (map inspectEx results)"
| "inspectEx (AssignStmt sp lhs tok rhs) =
     AssignStmt sp lhs tok rhs # concat (map inspectEx lhs) @ concat (map inspectEx rhs)"
| "inspectEx (BlockStmt sp l) = BlockStmt sp l # concat (map inspectEx l)"
| "inspectEx n = [n]"

definition single :: "string \<Rightarrow> varInfo" where
  "single x = \<lparr>name = x, any = False, nameRxs = [], needExpr = False, comp = False, types = []\<rparr>"

definition multi :: "string \<Rightarrow> varInfo" where
  "multi x = \<lparr>name = x, any = True, nameRxs = [], needExpr = False, comp = False, types = []\<rparr>"

fun indexOf :: "string \<Rightarrow> (string \<times> varInfo) list \<Rightarrow> int" where
  "indexOf s [] = -1"
| "indexOf s (p # ps) =
     (if fst p = s then 0 else (let i = indexOf s ps in if i < 0 then -1 else i + 1))"

definition tableEnv :: "(string \<times> varInfo) list \<Rightarrow> bool \<Rightarrow> env" where
  "tableEnv tab aggr =
     \<lparr>aggressive = aggr,
      isWildName = (\<lambda>s. map_of tab s \<noteq> None),
      fromWildName = (\<lambda>s. indexOf s tab),
      info = (\<lambda>i. if 0 \<le> i \<and> nat i < length tab then snd (tab ! nat i) else single ''''),
      Scopes = (\<lambda>n. None),
      TypeOf = (\<lambda>n. None),
      LookupParent = (\<lambda>sc s. None),
      Comparable = (\<lambda>t. False),
      Identical = (\<lambda>t u. t = u),
      AssignableTo = (\<lambda>t u. t = u),
      ConvertibleTo = (\<lambda>t u. t = u),
      ParseInt = (\<lambda>s. 0),
      Inspect = inspectEx\<rparr>"

definition exTab :: "(string \<times> varInfo) list" where
  "exTab = [(''$x'', single ''x''), (''$y'', single ''y''), (''$*a'', multi ''a''),
            (''$*b'', multi ''b''), (''$_'', single ''_''), (''$*_'', multi ''_'')]"

definition exEnv :: env where
  "exEnv = tableEnv exTab False"

definition st0 :: mstate where
  "st0 = \<lparr>mvalues = Map.empty, scope = None\<rparr>"

text \<open>
  Nodes of the examples: an identifier and an integer literal at a position, and the
  expression statement of an expression (whose span is that of the expression).
\<close>

definition ident :: "pos \<Rightarrow> string \<Rightarrow> node" where
  "ident p s = Ident (p, p + int (length s)) s"

definition intLit :: "pos \<Rightarrow> string \<Rightarrow> node" where
  "intLit p v = BasicLit (p, p + int (length v)) ''INT'' v"

definition exprStmt :: "node \<Rightarrow> node" where
  "exprStmt x = ExprStmt (nodeSpan x) x"

text \<open>
  What a run returned and what it bound: \<open>None\<close> for a run that panicked or ran out of
  fuel (and, for a binding, for a name that is not bound).
\<close>

definition resultOf :: "('a \<times> mstate) res \<Rightarrow> 'a option" where
  "resultOf r = (case r of Inl f \<Rightarrow> None | Inr (x, st) \<Rightarrow> Some x)"

definition bindingOf :: "('a \<times> mstate) res \<Rightarrow> string \<Rightarrow> node option" where
  "bindingOf r x = (case r of Inl f \<Rightarrow> None | Inr (y, st) \<Rightarrow> mvalues st x)"

section \<open>The stages as the specification words them\<close>

text \<open>
  The filter stages as the specification words them: \<open>matchedAnywhere\<close> runs the
  traversal of each candidate in turn and records only the flag ``matched anywhere
  inside''; \<open>retain\<close> keeps the candidates whose flag equals \<open>wantMatch\<close>.
\<close>

fun matchedAnywhere :: "nat \<Rightarrow> env \<Rightarrow> exprCmd \<Rightarrow> node list \<Rightarrow> mstate \<Rightarrow> (bool list \<times> mstate) res" where
  "matchedAnywhere k e cmd [] st = Inr ([], st)"
| "matchedAnywhere k e cmd (nd # nds) st =
     (case walkWithLists e (cmdNode cmd) nd (filterMatch k e) (False, st) of
        Inl f \<Rightarrow> Inl f
      | Inr (b, st') \<Rightarrow>
          (case matchedAnywhere k e cmd nds st' of
             Inl f \<Rightarrow> Inl f
           | Inr (bs, st'') \<Rightarrow> Inr (b # bs, st'')))"

definition retain :: "bool \<Rightarrow> node list \<Rightarrow> bool list \<Rightarrow> node list" where
  "retain wantMatch nds bs = map fst (filter (\<lambda>p. snd p = wantMatch) (zip nds bs))"

text \<open>
  The range stage as the specification words it: \<open>rangeFound\<close> runs the same traversal
  and records every successful attempt with its source span, in the order of
  discovery; \<open>keepFirst\<close> drops an entry whose span was recorded before.
\<close>

definition foundMatch ::
  "nat \<Rightarrow> env \<Rightarrow> node \<Rightarrow> node \<Rightarrow> (node \<times> span) list \<times> mstate \<Rightarrow> ((node \<times> span) list \<times> mstate) res"
where
  "foundMatch k e exprNode nd s =
     (case s of (fs, st) \<Rightarrow>
        if nd = NilNode then Inr s
        else
         (case topNode k e exprNode nd (st\<lparr>mvalues := Map.empty\<rparr>) of
            Inl f \<Rightarrow> Inl f
          | Inr (found, st') \<Rightarrow>
              if found = NilNode then Inr (fs, st')
              else (case posRange found of
                      Inl f \<Rightarrow> Inl f
                    | Inr pr \<Rightarrow> Inr (fs @ [(found, pr)], st'))))"

definition rangeFound ::
  "nat \<Rightarrow> env \<Rightarrow> exprCmd \<Rightarrow> node list \<Rightarrow> mstate \<Rightarrow> ((node \<times> span) list \<times> mstate) res"
where
  "rangeFound k e cmd nds st =
     forEach (\<lambda>nd. walkWithLists e (cmdNode cmd) nd (foundMatch k e)) nds ([], st)"

fun keepFirst :: "span set \<Rightarrow> (node \<times> span) list \<Rightarrow> (node \<times> span) list" where
  "keepFirst seen [] = []"
| "keepFirst seen (p # fs) =
     (if snd p \<in> seen then keepFirst seen fs else p # keepFirst (insert (snd p) seen) fs)"

text \<open>
  The call \<^verbatim>\<open>f(xs)\<close> of the examples, with the position of its \<^verbatim>\<open>...\<close> (0 when there is
  none).
\<close>

definition callF :: "pos \<Rightarrow> node" where
  "callF p = CallExpr (0, 7) (ident 0 ''f'') [ident 2 ''xs''] p"

text \<open>
  The shapes of a type expression for which \<^verbatim>\<open>resolveType\<close> has a case, and the test on
  the length of an array type.
\<close>

definition supportedShape :: "node \<Rightarrow> bool" where
  "supportedShape ex = (case ex of
      Ident sp x \<Rightarrow> True | ArrayType sp l elt \<Rightarrow> True | StarExpr sp x \<Rightarrow> True
    | SelectorExpr sp x sel \<Rightarrow> True | _ \<Rightarrow> False)"

definition isIntLit :: "node \<Rightarrow> bool" where
  "isIntLit n = (case n of BasicLit sp kind v \<Rightarrow> kind = ''INT'' | _ \<Rightarrow> False)"

text \<open>
  An environment with a type constraint: the wildcard \<^verbatim>\<open>$x\<close> must have a type identical
  to \<^verbatim>\<open>[n]int\<close>, an array type whose length is an identifier. Every expression has the
  type \<^verbatim>\<open>int\<close>, and \<^verbatim>\<open>int\<close> is the only name the scopes know.
\<close>

definition typedTab :: "(string \<times> varInfo) list" where
  "typedTab =
     [(''$x'', \<lparr>name = ''x'', any = False, nameRxs = [], needExpr = True, comp = False,
               types = [\<lparr>op = ''type'',
                         expr = ArrayType (0, 6) (ident 1 ''n'') (ident 3 ''int'')\<rparr>]\<rparr>)]"

definition typedEnv :: env where
  "typedEnv = (tableEnv typedTab False)
     \<lparr>TypeOf := (\<lambda>n. Some (TOpaque ''int'')),
      LookupParent := (\<lambda>sc s. if s = ''int'' then Some (Object (TOpaque ''int'')) else None)\<rparr>"

section \<open>Loop states and inputs of the examples\<close>

text \<open>
  The local variables of \<^verbatim>\<open>matcher.nodes\<close> while the multi-wildcard \<open>a\<close> at index 0 of the
  pattern is absorbing, in a run without partial mode on a candidate list of length \<open>n\<close>:
  the wildcard started at candidate 0 and has taken the candidates before \<open>j\<close>, the
  pattern cursor is on the element after the wildcard, and a mismatch restarts the
  wildcard at \<open>j + 1\<close>.
\<close>

definition absorbing :: "string \<Rightarrow> nat \<Rightarrow> nat \<Rightarrow> (string \<rightharpoonup> node) \<Rightarrow> loopst" where
  "absorbing a j n om =
     \<lparr>i1 = 1, i2 = j, next1 = 0, next2 = j + 1, wildName = a, wildStart = 0,
      partialStart = 0, partialEnd = n, oldMatches = om\<rparr>"

text \<open>
  The pattern list \<^verbatim>\<open>$*_, $x, 0\<close>, the candidate list \<^verbatim>\<open>1, 2, 0\<close>, and the local variables
  of \<^verbatim>\<open>matcher.nodes\<close> in a run of the first on the second: the cursors, the restart
  position in the candidate list, the wildcard in effect and the snapshot.
\<close>

definition c7p :: nodeList where
  "c7p = (ExprL, [ident 0 ''$*_'', ident 5 ''$x'', intLit 9 ''0''])"

definition c7c :: nodeList where
  "c7c = (ExprL, [intLit 1 ''1'', intLit 4 ''2'', intLit 7 ''0''])"

definition c7l :: "nat \<Rightarrow> nat \<Rightarrow> nat \<Rightarrow> string \<Rightarrow> (string \<rightharpoonup> node) \<Rightarrow> loopst" where
  "c7l a b c w om = \<lparr>i1 = a, i2 = b, next1 = 0, next2 = c, wildName = w, wildStart = 0,
       partialStart = 0, partialEnd = 3, oldMatches = om\<rparr>"

text \<open>
  The pattern \<^verbatim>\<open>$x + $x\<close> and three candidates of a filter stage: \<^verbatim>\<open>a + a\<close>, \<^verbatim>\<open>a + b\<close> and
  \<^verbatim>\<open>(c + c)\<close>, which holds a match inside. The argument list \<^verbatim>\<open>a\<close> of a range stage.
\<close>

definition c5pat :: node where
  "c5pat = BinaryExpr (0, 7) (ident 0 ''$x'') ''+'' (ident 5 ''$x'')"

definition c5a :: node where
  "c5a = BinaryExpr (10, 15) (ident 10 ''a'') ''+'' (ident 14 ''a'')"

definition c5b :: node where
  "c5b = BinaryExpr (20, 25) (ident 20 ''a'') ''+'' (ident 24 ''b'')"

definition c5c :: node where
  "c5c = ParenExpr (30, 37) (BinaryExpr (31, 36) (ident 31 ''c'') ''+'' (ident 35 ''c''))"

definition c6list :: node where
  "c6list = NList ExprL [ident 10 ''a'']"

section \<open>The range stage and its specification, side by side\<close>

text \<open>
  \<open>rangeRel\<close> relates the state of the callback of \<^verbatim>\<open>cmdRange\<close> to the state of
  \<open>foundMatch\<close> after the same attempts: the matcher is the same, \<^verbatim>\<open>matches\<close> is what
  \<open>keepFirst\<close> leaves of the finds, and \<^verbatim>\<open>seen\<close> holds the spans of the finds. \<open>spansOk\<close>
  says that each find is recorded with its own span.
\<close>

definition rangeRel :: "rangest \<Rightarrow> (node \<times> span) list \<times> mstate \<Rightarrow> bool" where
  "rangeRel s1 s2 =
     (case s1 of (ms, seen, st) \<Rightarrow>
        case s2 of (fs, st') \<Rightarrow>
          st = st' \<and> ms = map fst (keepFirst {} fs) \<and> seen = snd ` set fs)"

definition spansOk :: "(node \<times> span) list \<times> mstate \<Rightarrow> bool" where
  "spansOk s = list_all (\<lambda>p. posRange (fst p) = Inr (snd p)) (fst s)"

section \<open>Evaluation\<close>

text \<open>
  The definitions that a concrete run unfolds: those of the examples and those of the
  matcher.
\<close>

lemmas ex_defs = tableEnv_def exTab_def exEnv_def st0_def single_def multi_def ident_def
  intLit_def exprStmt_def resultOf_def bindingOf_def nodeSpan_def

lemmas run_defs = nodeStep_def nodeCases_def seatScope_def ret_def andAlso_def orElse_def
  notNil_def nameRxsOk_def needExprOk_def isScopeNode_def isWildIdent_def isAnyIdent_def
  nodes_def nodesBody_def nodesMismatch_def nodesEnd_def wouldMatch_def slice_def len_def
  at_def exprs_def stmts_def idents_def specs_def topNode_def asStmtList_def

lemmas walk_defs = walkWithLists_def visit_def filterMatch_def rangeMatch_def foundMatch_def
  nodeLists_def addList_def isExpr_def posRange_def

text \<open>
  \<^verbatim>\<open>matcher.node\<close> with fuel unfolds to its body; re-seating the scope twice on the same
  candidate is re-seating it once, and it leaves the bindings alone.
\<close>

lemma mnode_Suc: "mnode (Suc k) e x nd st = nodeCases k e (mnode k e) x nd (seatScope e nd st)"
  by (simp add: nodeStep_def)

lemma seatScope_idem [simp]: "seatScope e nd (seatScope e nd st) = seatScope e nd st"
  by (simp add: seatScope_def)

lemma mvalues_seatScope [simp]: "mvalues (seatScope e nd st) = mvalues st"
  by (simp add: seatScope_def)

lemma mnode_seatScope [simp]: "mnode k e x nd (seatScope e nd st) = mnode k e x nd st"
  by (cases k) (simp_all add: nodeStep_def)

lemma nodeCases_ExprStmt:
  "nd \<noteq> NilNode \<Longrightarrow>
   nodeCases n e m (ExprStmt sp x) nd st =
     (if isWildIdent e x then m x nd st
      else (case nd of ExprStmt sp' y \<Rightarrow> m x y st | _ \<Rightarrow> ret False st))"
  by (simp add: nodeCases_def)

lemma nodeCases_NilNode_cand:
  "ex \<noteq> NilNode \<Longrightarrow> \<not> (\<exists>sp. ex = Ident sp ''_'') \<Longrightarrow> nodeCases n e m ex NilNode st = ret False st"
  by (cases ex) (auto simp add: nodeCases_def ret_def)

lemma nodeCases_wild_unbound:
  assumes "isWildName e w" "nd \<noteq> NilNode"
    and "\<not> any (info e (fromWildName e w))" "nameRxs (info e (fromWildName e w)) = []"
    and "\<not> needExpr (info e (fromWildName e w))" "name (info e (fromWildName e w)) \<noteq> ''_''"
    and "mvalues st (name (info e (fromWildName e w))) = None"
  shows "nodeCases n e m (Ident sp w) nd st =
           Inr (True, st\<lparr>mvalues := (mvalues st)(name (info e (fromWildName e w)) \<mapsto> nd)\<rparr>)"
  using assms by (simp add: nodeCases_def ret_def nameRxsOk_def needExprOk_def)

section \<open>The sequence matcher on empty patterns\<close>

text \<open>
  Claim C1, as the code has it. \<^verbatim>\<open>matcher.nodes\<close> tests the length of the pattern list
  before anything else: an empty pattern list against an empty candidate list returns
  the (empty) candidate list, which is a match; an empty pattern list against a
  non-empty candidate list returns nil, whatever \<open>partial\<close> is. This holds for every
  fuel, matcher state and kind of list.
\<close>

theorem nodes_empty_pattern:
  "nodes n e m (lk1, []) (lk2, []) partial st = Inr (NList lk2 [], st) \<and>
   nodes n e m (lk1, []) (lk2, y # ys) partial st = Inr (NilNode, st)"
  by (simp add: nodes_def len_def)

text \<open>
  Claim C1 as stated says that in partial mode the empty pattern succeeds on a
  non-empty candidate list. It does not: against the one-statement list \<^verbatim>\<open>a\<close> the
  sequence matcher returns nil in partial mode, and so does \<^verbatim>\<open>topNode\<close>, which is the
  only caller that asks for a partial match.
\<close>

theorem nodes_empty_pattern_partial_counterexample:
  "resultOf (nodes 10 exEnv (mnode 10 exEnv) (StmtL, [])
      (StmtL, [exprStmt (ident 1 ''a'')]) True st0) = Some NilNode \<and>
   resultOf (topNode 10 exEnv (NList StmtL []) (NList StmtL [exprStmt (ident 1 ''a'')]) st0)
     = Some NilNode"
  by (simp add: nodes_def len_def resultOf_def topNode_def asStmtList_def)

section \<open>Multi-wildcards and partial matches\<close>

text \<open>
  A multi-wildcard followed by one more pattern element. While the wildcard absorbs
  (state \<open>absorbing\<close>), a candidate that the element does not match costs two
  iterations of the loop: the mismatch restarts at the wildcard with the bindings of
  the snapshot, and the wildcard sets the next restart one candidate further. The
  candidate that the element matches, when it is the last one, ends the loop.
\<close>

lemma absorbing_hit:
  assumes x: "\<not> any (info e (fromWildNode e x))"
    and a: "a \<noteq> ''''" "a \<noteq> ''_''"
    and hit: "\<forall>s. \<exists>s'. m x y s = Inr (True, s') \<and> mvalues s' = mvalues s"
    and s: "mvalues s a = None"
  shows "\<exists>st'. nodesLoop (Suc (Suc n)) e m (lk1, [w, x]) (lk2, ys @ [y]) False
            (absorbing a (length ys) (Suc (length ys)) om) s
          = Inr (NList lk2 (ys @ [y]), st') \<and>
         mvalues st' = (mvalues s)(a \<mapsto> NList lk2 ys)"
proof -
  let ?s1 = "s\<lparr>mvalues := (mvalues s)(a \<mapsto> NList lk2 ys)\<rparr>"
  from hit obtain s' where h: "m x y ?s1 = Inr (True, s')" "mvalues s' = mvalues ?s1"
    by blast
  have wm: "wouldMatch m (lk2, ys @ [y]) (absorbing a (length ys) (Suc (length ys)) om) s
              = Inr (True, ?s1)"
    using a s by (simp add: wouldMatch_def absorbing_def slice_def ret_def)
  show ?thesis
    using x a h wm
    by (simp add: nodesBody_def nodesEnd_def wouldMatch_def andAlso_def ret_def len_def at_def
        slice_def absorbing_def nth_append)
qed

lemma absorbing_miss:
  assumes w: "any (info e (fromWildNode e w))" "name (info e (fromWildNode e w)) = a"
    and x: "\<not> any (info e (fromWildNode e x))"
    and a: "a \<noteq> ''''" "a \<noteq> ''_''"
    and miss: "\<forall>s. \<exists>s'. m x (ys ! j) s = Inr (False, s')"
    and j: "j < length ys"
    and s: "mvalues s a = None"
  shows "\<exists>s'. nodesLoop (Suc (Suc n)) e m (lk1, [w, x]) (lk2, ys @ [y]) False
            (absorbing a j (Suc (length ys)) (mvalues s)) s
          = nodesLoop n e m (lk1, [w, x]) (lk2, ys @ [y]) False
              (absorbing a (Suc j) (Suc (length ys)) (mvalues s)) s' \<and>
         mvalues s' = mvalues s"
proof -
  let ?s1 = "s\<lparr>mvalues := (mvalues s)(a \<mapsto> NList lk2 (take j ys))\<rparr>"
  from miss obtain s' where h: "m x (ys ! j) ?s1 = Inr (False, s')"
    by blast
  have wm: "wouldMatch m (lk2, ys @ [y]) (absorbing a j (Suc (length ys)) (mvalues s)) s
              = Inr (True, ?s1)"
    using a s j by (simp add: wouldMatch_def absorbing_def slice_def ret_def)
  have "nodesLoop (Suc (Suc n)) e m (lk1, [w, x]) (lk2, ys @ [y]) False
            (absorbing a j (Suc (length ys)) (mvalues s)) s
          = nodesLoop n e m (lk1, [w, x]) (lk2, ys @ [y]) False
              (absorbing a (Suc j) (Suc (length ys)) (mvalues s)) (s'\<lparr>mvalues := mvalues s\<rparr>)"
    using w x a h wm j
    by (simp add: nodesBody_def nodesMismatch_def andAlso_def ret_def len_def at_def
        absorbing_def nth_append)
  then show ?thesis
    by (intro exI [of _ "s'\<lparr>mvalues := mvalues s\<rparr>"]) simp
qed

lemma absorbing_loop:
  assumes w: "any (info e (fromWildNode e w))" "name (info e (fromWildNode e w)) = a"
    and x: "\<not> any (info e (fromWildNode e x))"
    and a: "a \<noteq> ''''" "a \<noteq> ''_''"
    and miss: "\<forall>z\<in>set ys. \<forall>s. \<exists>s'. m x z s = Inr (False, s')"
    and hit: "\<forall>s. \<exists>s'. m x y s = Inr (True, s') \<and> mvalues s' = mvalues s"
  shows "j \<le> length ys \<Longrightarrow> mvalues s a = None \<Longrightarrow> 2 * (length ys - j) + 2 \<le> n \<Longrightarrow>
         \<exists>st'. nodesLoop n e m (lk1, [w, x]) (lk2, ys @ [y]) False
            (absorbing a j (Suc (length ys)) (mvalues s)) s
          = Inr (NList lk2 (ys @ [y]), st') \<and>
         mvalues st' = (mvalues s)(a \<mapsto> NList lk2 ys)"
proof (induction "length ys - j" arbitrary: j s n)
  case 0
  then have j: "j = length ys" by simp
  from 0 obtain n' where n: "n = Suc (Suc n')"
    by (cases n; cases "n - 1") auto
  show ?case
    unfolding j n by (rule absorbing_hit [where m = m and x = x and y = y and e = e, OF x a hit]) (fact 0)
next
  case (Suc d)
  then have j: "j < length ys" by simp
  from Suc.prems(3) j obtain n' where n: "n = Suc (Suc n')" "2 * (length ys - Suc j) + 2 \<le> n'"
    by (cases n; cases "n - 1") auto
  from miss j have "\<forall>s. \<exists>s'. m x (ys ! j) s = Inr (False, s')"
    by simp
  from absorbing_miss [where m = m and x = x and e = e and w = w and ys = ys and j = j
      and n = n' and ?lk1.0 = lk1 and ?lk2.0 = lk2 and y = y, OF w x a this j Suc.prems(2)]
  obtain s' where s': "nodesLoop n e m (lk1, [w, x]) (lk2, ys @ [y]) False
            (absorbing a j (Suc (length ys)) (mvalues s)) s
          = nodesLoop n' e m (lk1, [w, x]) (lk2, ys @ [y]) False
              (absorbing a (Suc j) (Suc (length ys)) (mvalues s)) s'" "mvalues s' = mvalues s"
    unfolding n by blast
  have "\<exists>st'. nodesLoop n' e m (lk1, [w, x]) (lk2, ys @ [y]) False
            (absorbing a (Suc j) (Suc (length ys)) (mvalues s')) s'
          = Inr (NList lk2 (ys @ [y]), st') \<and>
         mvalues st' = (mvalues s')(a \<mapsto> NList lk2 ys)"
    using Suc.hyps(2) j Suc.prems(2) s'(2) n(2)
    by (intro Suc.hyps(1)) auto
  with s' show ?case by simp
qed

text \<open>
  Claim C3, as the code has it. The pattern list is a multi-wildcard \<open>w\<close> of name \<open>a\<close>
  (not the discard wildcard, and \<open>a\<close> not bound yet) followed by one element \<open>x\<close> that is
  not a multi-wildcard; the match is not partial. The candidate list is \<open>ys\<close> followed by
  \<open>y\<close>, where \<open>x\<close> matches no candidate of \<open>ys\<close> and matches \<open>y\<close> without touching the
  bindings (a literal or a plain identifier does). Then, with fuel for two iterations
  per candidate of \<open>ys\<close> and three more, the match succeeds with the whole candidate
  list and binds \<open>a\<close> to the sub-list \<open>ys\<close>, and to nothing else: the wildcard starts with
  the empty window, and every mismatch of \<open>x\<close> restarts it with the window one longer.
  The pattern \<^verbatim>\<open>$*a, 3\<close> against \<^verbatim>\<open>1, 2, 3\<close> binds \<^verbatim>\<open>a\<close> to \<^verbatim>\<open>1, 2\<close>, and \<^verbatim>\<open>$*a, last\<close> against
  \<^verbatim>\<open>last\<close> binds \<^verbatim>\<open>a\<close> to the empty list. Nothing is said here of a candidate list in
  which \<open>x\<close> matches an earlier candidate too.
\<close>

theorem multi_wildcard_absorbs:
  assumes w: "any (info e (fromWildNode e w))" "name (info e (fromWildNode e w)) = a"
    and x: "\<not> any (info e (fromWildNode e x))"
    and a: "a \<noteq> ''''" "a \<noteq> ''_''" "mvalues st a = None"
    and miss: "\<forall>z\<in>set ys. \<forall>s. \<exists>s'. m x z s = Inr (False, s')"
    and hit: "\<forall>s. \<exists>s'. m x y s = Inr (True, s') \<and> mvalues s' = mvalues s"
    and fuel: "2 * length ys + 3 \<le> n"
  shows "\<exists>st'. nodes n e m (lk1, [w, x]) (lk2, ys @ [y]) False st
            = Inr (NList lk2 (ys @ [y]), st') \<and>
          mvalues st' = (mvalues st)(a \<mapsto> NList lk2 ys)"
proof -
  from fuel obtain n' where n: "n = Suc n'" "2 * (length ys - 0) + 2 \<le> n'"
    by (cases n) auto
  have "nodes n e m (lk1, [w, x]) (lk2, ys @ [y]) False st
      = nodesLoop n' e m (lk1, [w, x]) (lk2, ys @ [y]) False
          (absorbing a 0 (Suc (length ys)) (mvalues st)) st"
    using w a unfolding n
    by (simp add: nodes_def nodesBody_def len_def at_def absorbing_def)
  with absorbing_loop [where m = m and x = x and e = e and w = w and ys = ys and y = y
      and j = 0 and ?lk1.0 = lk1 and ?lk2.0 = lk2, OF w x a(1,2) miss hit _ a(3) n(2)]
  show ?thesis by simp
qed

text \<open>
  The two instances: \<^verbatim>\<open>$*a, 3\<close> against \<^verbatim>\<open>1, 2, 3\<close> with fuel 7, and \<^verbatim>\<open>$*a, last\<close> against
  \<^verbatim>\<open>last\<close> with fuel 3.
\<close>

theorem multi_wildcard_absorbs_witness:
  "resultOf (nodes 7 exEnv (mnode 3 exEnv) (ExprL, [ident 0 ''$*a'', intLit 5 ''3''])
      (ExprL, [intLit 1 ''1'', intLit 4 ''2'', intLit 7 ''3'']) False st0)
     = Some (NList ExprL [intLit 1 ''1'', intLit 4 ''2'', intLit 7 ''3'']) \<and>
   bindingOf (nodes 7 exEnv (mnode 3 exEnv) (ExprL, [ident 0 ''$*a'', intLit 5 ''3''])
      (ExprL, [intLit 1 ''1'', intLit 4 ''2'', intLit 7 ''3'']) False st0) ''a''
     = Some (NList ExprL [intLit 1 ''1'', intLit 4 ''2'']) \<and>
   resultOf (nodes 3 exEnv (mnode 3 exEnv) (ExprL, [ident 0 ''$*a'', ident 5 ''last''])
      (ExprL, [ident 1 ''last'']) False st0)
     = Some (NList ExprL [ident 1 ''last'']) \<and>
   bindingOf (nodes 3 exEnv (mnode 3 exEnv) (ExprL, [ident 0 ''$*a'', ident 5 ''last''])
      (ExprL, [ident 1 ''last'']) False st0) ''a''
     = Some (NList ExprL [])"
proof -
  have w: "any (info exEnv (fromWildNode exEnv (ident 0 ''$*a'')))"
    "name (info exEnv (fromWildNode exEnv (ident 0 ''$*a''))) = ''a''"
    by (simp_all add: ex_defs)
  have a: "''a'' \<noteq> ''''" "''a'' \<noteq> ''_''" "mvalues st0 ''a'' = None"
    by (simp_all add: st0_def)
  have x3: "\<not> any (info exEnv (fromWildNode exEnv (intLit 5 ''3'')))"
    and xl: "\<not> any (info exEnv (fromWildNode exEnv (ident 5 ''last'')))"
    by (simp_all add: ex_defs)
  have miss3: "\<forall>z\<in>set [intLit 1 ''1'', intLit 4 ''2''].
      \<forall>s. \<exists>s'. mnode 3 exEnv (intLit 5 ''3'') z s = Inr (False, s')"
    by (simp add: eval_nat_numeral ex_defs run_defs)
  have hit3: "\<forall>s. \<exists>s'. mnode 3 exEnv (intLit 5 ''3'') (intLit 7 ''3'') s = Inr (True, s') \<and>
      mvalues s' = mvalues s"
    by (simp add: eval_nat_numeral ex_defs run_defs)
  have missl: "\<forall>z\<in>set []. \<forall>s. \<exists>s'. mnode 3 exEnv (ident 5 ''last'') z s = Inr (False, s')"
    by simp
  have hitl: "\<forall>s. \<exists>s'. mnode 3 exEnv (ident 5 ''last'') (ident 1 ''last'') s = Inr (True, s') \<and>
      mvalues s' = mvalues s"
    by (simp add: eval_nat_numeral ex_defs run_defs)
  from multi_wildcard_absorbs [where m = "mnode 3 exEnv" and x = "intLit 5 ''3''"
      and y = "intLit 7 ''3''" and ys = "[intLit 1 ''1'', intLit 4 ''2'']" and n = 7
      and e = exEnv and w = "ident 0 ''$*a''" and ?lk1.0 = ExprL and ?lk2.0 = ExprL,
      OF w x3 a miss3 hit3]
  obtain s3 where r3: "nodes 7 exEnv (mnode 3 exEnv) (ExprL, [ident 0 ''$*a'', intLit 5 ''3''])
      (ExprL, [intLit 1 ''1'', intLit 4 ''2'', intLit 7 ''3'']) False st0
     = Inr (NList ExprL [intLit 1 ''1'', intLit 4 ''2'', intLit 7 ''3''], s3)"
     "mvalues s3 = (mvalues st0)(''a'' \<mapsto> NList ExprL [intLit 1 ''1'', intLit 4 ''2''])"
    by auto
  from multi_wildcard_absorbs [where m = "mnode 3 exEnv" and x = "ident 5 ''last''"
      and y = "ident 1 ''last''" and ys = "[]" and n = 3
      and e = exEnv and w = "ident 0 ''$*a''" and ?lk1.0 = ExprL and ?lk2.0 = ExprL,
      OF w xl a missl hitl]
  obtain sl where rl: "nodes 3 exEnv (mnode 3 exEnv) (ExprL, [ident 0 ''$*a'', ident 5 ''last''])
      (ExprL, [ident 1 ''last'']) False st0 = Inr (NList ExprL [ident 1 ''last''], sl)"
     "mvalues sl = (mvalues st0)(''a'' \<mapsto> NList ExprL [])"
    by auto
  from r3 rl show ?thesis
    by (simp add: resultOf_def bindingOf_def)
qed

text \<open>
  Claim C3 as stated matches \<^verbatim>\<open>$*a, last\<close> against \<^verbatim>\<open>1, 2, 3\<close>. The identifier \<^verbatim>\<open>last\<close> is
  not a wildcard and an identifier never matches a literal, so the sequence matcher
  returns nil, and the node matcher on the two expression lists returns false. With a
  single wildcard in the place of \<^verbatim>\<open>last\<close> (\<^verbatim>\<open>$*a, $x\<close>) the match succeeds, but \<^verbatim>\<open>a\<close> is
  bound to the empty list and not to \<^verbatim>\<open>1, 2\<close>: \<^verbatim>\<open>$x\<close> matches \<^verbatim>\<open>1\<close>, which clears
  \<^verbatim>\<open>wildName\<close>; the restart that follows does not bring it back, so the wildcard starts
  a new window at the restart position each time.
\<close>

theorem multi_wildcard_last_counterexample:
  "resultOf (nodes 10 exEnv (mnode 10 exEnv) (ExprL, [ident 0 ''$*a'', ident 5 ''last''])
      (ExprL, [intLit 1 ''1'', intLit 4 ''2'', intLit 7 ''3'']) False st0) = Some NilNode \<and>
   mnode 10 exEnv (NList ExprL [ident 0 ''$*a'', ident 5 ''last''])
      (NList ExprL [intLit 1 ''1'', intLit 4 ''2'', intLit 7 ''3'']) st0 = Inr (False, st0) \<and>
   bindingOf (nodes 10 exEnv (mnode 10 exEnv) (ExprL, [ident 0 ''$*a'', ident 5 ''$x''])
      (ExprL, [intLit 1 ''1'', intLit 4 ''2'', intLit 7 ''3'']) False st0) ''a''
     = Some (NList ExprL []) \<and>
   bindingOf (nodes 10 exEnv (mnode 10 exEnv) (ExprL, [ident 0 ''$*a'', ident 5 ''$x''])
      (ExprL, [intLit 1 ''1'', intLit 4 ''2'', intLit 7 ''3'']) False st0) ''a''
     \<noteq> Some (NList ExprL [intLit 1 ''1'', intLit 4 ''2''])"
  by (simp add: eval_nat_numeral ex_defs run_defs)

text \<open>
  Claim C4. The two-statement pattern \<^verbatim>\<open>b; c\<close> against the statement list
  \<^verbatim>\<open>a; b; c; d\<close>: both are statement lists, so \<^verbatim>\<open>topNode\<close> calls the sequence matcher in
  partial mode. The result is the sub-list \<^verbatim>\<open>b; c\<close> of the candidate (the statements at
  positions 13 and 16), not the whole list: \<^verbatim>\<open>a\<close> is skipped and \<^verbatim>\<open>d\<close> is left
  unconsumed. The span of the result runs from the start of \<^verbatim>\<open>b\<close> to the end of \<^verbatim>\<open>c\<close>.
\<close>

theorem partial_match_subrange:
  "resultOf (topNode (10 + k) exEnv
      (NList StmtL [exprStmt (ident 0 ''b''), exprStmt (ident 3 ''c'')])
      (NList StmtL [exprStmt (ident 10 ''a''), exprStmt (ident 13 ''b''),
                    exprStmt (ident 16 ''c''), exprStmt (ident 19 ''d'')]) st0)
    = Some (NList StmtL [exprStmt (ident 13 ''b''), exprStmt (ident 16 ''c'')]) \<and>
   posRange (NList StmtL [exprStmt (ident 13 ''b''), exprStmt (ident 16 ''c'')]) = Inr (13, 17)"
  by (simp add: eval_nat_numeral ex_defs run_defs posRange_def)

section \<open>Expression statements and calls\<close>

text \<open>
  Claim C9. A pattern that is an expression statement whose expression is a wildcard
  identifier is matched as that identifier against the whole candidate node: the call
  with fuel \<open>k + 2\<close> is the call of the identifier with fuel \<open>k + 1\<close>. So a single
  wildcard without constraints that is not yet bound matches any candidate node that
  is not nil, whatever its kind (a return statement, an assignment, ...), and binds
  its name to it. Where the expression of the pattern is not a wildcard identifier,
  a successful match implies that the candidate is an expression statement.
\<close>
theorem exprStmt_wildcard_matches_statement:
  "(isWildName e w \<and> nd \<noteq> NilNode \<longrightarrow>
      mnode (Suc (Suc k)) e (ExprStmt sp (Ident sp' w)) nd st = mnode (Suc k) e (Ident sp' w) nd st) \<and>
   (isWildName e w \<and> nd \<noteq> NilNode \<and> info e (fromWildName e w) = single x \<and> x \<noteq> ''_'' \<and>
    mvalues st x = None \<longrightarrow>
      mnode (Suc (Suc k)) e (ExprStmt sp (Ident sp' w)) nd st =
        Inr (True, (seatScope e nd st)\<lparr>mvalues := (mvalues st)(x \<mapsto> nd)\<rparr>)) \<and>
   (\<not> isWildIdent e y \<and> mnode (Suc k) e (ExprStmt sp y) nd st = Inr (True, st') \<longrightarrow>
      (\<exists>sp'' z. nd = ExprStmt sp'' z))"
proof (intro conjI impI)
  assume a: "isWildName e w \<and> nd \<noteq> NilNode"
  then show "mnode (Suc (Suc k)) e (ExprStmt sp (Ident sp' w)) nd st = mnode (Suc k) e (Ident sp' w) nd st"
    by (simp add: mnode_Suc [of "Suc k"] nodeCases_ExprStmt isWildIdent_def del: mnode.simps)
next
  assume a: "isWildName e w \<and> nd \<noteq> NilNode \<and> info e (fromWildName e w) = single x \<and> x \<noteq> ''_'' \<and>
    mvalues st x = None"
  then have "mnode (Suc (Suc k)) e (ExprStmt sp (Ident sp' w)) nd st = mnode (Suc k) e (Ident sp' w) nd st"
    by (simp add: mnode_Suc [of "Suc k"] nodeCases_ExprStmt isWildIdent_def del: mnode.simps)
  also have "\<dots> = Inr (True, (seatScope e nd st)\<lparr>mvalues := (mvalues st)(x \<mapsto> nd)\<rparr>)"
    using a by (simp add: mnode_Suc [of k] nodeCases_wild_unbound single_def del: mnode.simps)
  finally show "mnode (Suc (Suc k)) e (ExprStmt sp (Ident sp' w)) nd st =
        Inr (True, (seatScope e nd st)\<lparr>mvalues := (mvalues st)(x \<mapsto> nd)\<rparr>)" .
next
  assume "\<not> isWildIdent e y \<and> mnode (Suc k) e (ExprStmt sp y) nd st = Inr (True, st')"
  then have a: "\<not> isWildIdent e y" "mnode (Suc k) e (ExprStmt sp y) nd st = Inr (True, st')"
    by simp_all
  show "\<exists>sp'' z. nd = ExprStmt sp'' z"
  proof (cases "nd = NilNode")
    case True
    with a show ?thesis
      by (simp add: mnode_Suc nodeCases_NilNode_cand ret_def del: mnode.simps)
  next
    case False
    with a show ?thesis
      by (cases nd) (simp_all add: mnode_Suc nodeCases_ExprStmt ret_def del: mnode.simps)
  qed
qed


theorem exprStmt_wildcard_matches_statement_witness:
  "mnode 3 exEnv (exprStmt (ident 0 ''$x'')) (ReturnStmt (5, 13) [ident 12 ''a'']) st0
     = mnode 2 exEnv (ident 0 ''$x'') (ReturnStmt (5, 13) [ident 12 ''a'']) st0 \<and>
   mnode 3 exEnv (exprStmt (ident 0 ''$x'')) (ReturnStmt (5, 13) [ident 12 ''a'']) st0
     = Inr (True, st0\<lparr>mvalues := [''x'' \<mapsto> ReturnStmt (5, 13) [ident 12 ''a'']]\<rparr>) \<and>
   mnode 3 exEnv (exprStmt (ident 0 ''$x''))
       (AssignStmt (5, 10) [ident 5 ''a''] ''='' [ident 9 ''b'']) st0
     = Inr (True, st0\<lparr>mvalues := [''x'' \<mapsto> AssignStmt (5, 10) [ident 5 ''a''] ''='' [ident 9 ''b'']]\<rparr>) \<and>
   mnode 3 exEnv (exprStmt (ident 0 ''f'')) (exprStmt (ident 5 ''f'')) st0 = Inr (True, st0) \<and>
   (\<exists>sp z. exprStmt (ident 5 ''f'') = ExprStmt sp z)"
proof -
  have w: "isWildName exEnv ''$x''" "info exEnv (fromWildName exEnv ''$x'') = single ''x''"
    "\<not> isWildIdent exEnv (ident 0 ''f'')" "mvalues st0 ''x'' = None"
    by (simp_all add: ex_defs isWildIdent_def)
  have m: "mnode 3 exEnv (exprStmt (ident 0 ''f'')) (exprStmt (ident 5 ''f'')) st0 = Inr (True, st0)"
    by (simp add: eval_nat_numeral ex_defs run_defs)
  have s: "seatScope exEnv (ReturnStmt (5, 13) [ident 12 ''a'']) st0 = st0"
    "seatScope exEnv (AssignStmt (5, 10) [ident 5 ''a''] ''='' [ident 9 ''b'']) st0 = st0"
    by (simp_all add: seatScope_def isScopeNode_def)
  have n: "(3::nat) = Suc (Suc 1)" "(2::nat) = Suc 1" "(3::nat) = Suc 2"
    by simp_all
  note t1 = exprStmt_wildcard_matches_statement [THEN conjunct1, rule_format]
  note t2 = exprStmt_wildcard_matches_statement [THEN conjunct2, THEN conjunct1, rule_format]
  note t3 = exprStmt_wildcard_matches_statement [THEN conjunct2, THEN conjunct2, rule_format]
  have c1: "mnode 3 exEnv (exprStmt (ident 0 ''$x'')) (ReturnStmt (5, 13) [ident 12 ''a'']) st0
     = mnode 2 exEnv (ident 0 ''$x'') (ReturnStmt (5, 13) [ident 12 ''a'']) st0"
    unfolding n(1,2) exprStmt_def ident_def nodeSpan_def
    using w by (intro t1) simp
  have c2: "mnode 3 exEnv (exprStmt (ident 0 ''$x'')) nd st0
     = Inr (True, st0\<lparr>mvalues := [''x'' \<mapsto> nd]\<rparr>)"
    if "nd \<noteq> NilNode" "seatScope exEnv nd st0 = st0" for nd
    unfolding n(1) exprStmt_def ident_def nodeSpan_def
    using t2 [where e = exEnv and w = "''$x''" and nd = nd and k = 1 and st = st0 and x = "''x''"]
      w that
    by (simp add: st0_def del: mnode.simps)
  have c3: "\<exists>sp z. exprStmt (ident 5 ''f'') = ExprStmt sp z"
    using t3 [where e = exEnv and y = "ident 0 ''f''" and nd = "exprStmt (ident 5 ''f'')"
        and k = 2 and sp = "nodeSpan (ident 0 ''f'')" and st = st0 and st' = st0] w m
    unfolding n(3) exprStmt_def by blast
  from c1 c2 [OF _ s(1)] c2 [OF _ s(2)] m c3 show ?thesis
    by simp
qed

lemma nodeCases_CallExpr:
  "nd \<noteq> NilNode \<Longrightarrow>
   nodeCases n e m (CallExpr sp f args ell) nd st =
     (case nd of
        CallExpr sp' f' args' ell' \<Rightarrow>
          andAlso (m f f') (andAlso (exprs n e m args args') (ret (bothValid ell ell'))) st
      | _ \<Rightarrow> ret False st)"
  by (simp add: nodeCases_def)

lemma andAlso_True:
  "andAlso f g st = Inr (True, st') \<longleftrightarrow> (\<exists>st1. f st = Inr (True, st1) \<and> g st1 = Inr (True, st'))"
  by (auto simp add: andAlso_def split: sum.splits prod.splits if_splits)

text \<open>
  Claim C10. A call pattern against a candidate call is the conjunction of the match
  of the functions, the match of the argument lists and \<^verbatim>\<open>bothValid\<close> of the two
  positions of \<^verbatim>\<open>...\<close>. So a call pattern matches a candidate only if the candidate is a
  call and both or neither have the \<^verbatim>\<open>...\<close>; a pattern without \<^verbatim>\<open>...\<close> never matches a
  call with it.
\<close>

theorem callExpr_ellipsis_agree:
  "mnode (Suc k) e (CallExpr sp f args ell) (CallExpr sp' f' args' ell') st
     = andAlso (mnode k e f f')
         (andAlso (exprs k e (mnode k e) args args') (ret (bothValid ell ell'))) st \<and>
   (mnode (Suc k) e (CallExpr sp f args ell) nd st = Inr (True, st') \<longrightarrow>
      (\<exists>sp' f' args' ell'. nd = CallExpr sp' f' args' ell' \<and> IsValid ell = IsValid ell')) \<and>
   (\<not> IsValid ell \<and> IsValid ell' \<longrightarrow>
      mnode (Suc k) e (CallExpr sp f args ell) (CallExpr sp' f' args' ell') st \<noteq> Inr (True, st'))"
proof -
  have eq: "mnode (Suc k) e (CallExpr sp f args ell) (CallExpr sp' f' args' ell') st
     = andAlso (mnode k e f f')
         (andAlso (exprs k e (mnode k e) args args') (ret (bothValid ell ell'))) st" for sp' f' args' ell'
    by (simp add: mnode_Suc nodeCases_CallExpr seatScope_def isScopeNode_def del: mnode.simps)
  have only: "\<exists>sp' f' args' ell'. nd = CallExpr sp' f' args' ell' \<and> IsValid ell = IsValid ell'"
    if a: "mnode (Suc k) e (CallExpr sp f args ell) nd st = Inr (True, st')"
  proof (cases "nd = NilNode")
    case True
    with a show ?thesis
      by (simp add: mnode_Suc nodeCases_NilNode_cand ret_def del: mnode.simps)
  next
    case False
    with a show ?thesis
      by (cases nd)
        (auto simp add: mnode_Suc nodeCases_CallExpr ret_def andAlso_True bothValid_def
          simp del: mnode.simps)
  qed
  have never: "mnode (Suc k) e (CallExpr sp f args ell) (CallExpr sp' f' args' ell') st \<noteq> Inr (True, st')"
    if "\<not> IsValid ell \<and> IsValid ell'"
    using that by (auto simp add: eq andAlso_True ret_def bothValid_def simp del: mnode.simps)
  from eq only never show ?thesis by blast
qed

theorem callExpr_ellipsis_agree_witness:
  "mnode 6 exEnv (callF 4) (callF 4) st0 = Inr (True, st0) \<and>
   (\<exists>sp' f' args' ell'. callF 4 = CallExpr sp' f' args' ell' \<and> IsValid 4 = IsValid ell') \<and>
   mnode 6 exEnv (callF 0) (callF 0) st0 = Inr (True, st0) \<and>
   \<not> IsValid 0 \<and> IsValid 4 \<and>
   mnode 6 exEnv (callF 0) (callF 4) st0 = Inr (False, st0) \<and>
   mnode 6 exEnv (callF 4) (callF 0) st0 = Inr (False, st0)"
proof -
  have m: "mnode 6 exEnv (callF 4) (callF 4) st0 = Inr (True, st0)"
    "mnode 6 exEnv (callF 0) (callF 0) st0 = Inr (True, st0)"
    "mnode 6 exEnv (callF 0) (callF 4) st0 = Inr (False, st0)"
    "mnode 6 exEnv (callF 4) (callF 0) st0 = Inr (False, st0)"
    by (simp_all add: eval_nat_numeral ex_defs run_defs callF_def bothValid_def IsValid_def)
  have v: "\<not> IsValid 0" "IsValid 4" by (simp_all add: IsValid_def)
  from callExpr_ellipsis_agree [where k = 5 and e = exEnv and sp = "(0, 7)" and f = "ident 0 ''f''"
      and args = "[ident 2 ''xs'']" and ell = 4 and nd = "callF 4" and st = st0 and st' = st0
      and ell' = 4]
    callExpr_ellipsis_agree [where k = 5 and e = exEnv and sp = "(0, 7)" and f = "ident 0 ''f''"
      and args = "[ident 2 ''xs'']" and ell = 0 and nd = "callF 4" and st = st0 and st' = st0
      and ell' = 4 and sp' = "(0, 7)" and f' = "ident 0 ''f''" and args' = "[ident 2 ''xs'']"]
    m v
  show ?thesis
    by (simp add: eval_nat_numeral callF_def del: mnode.simps)
qed

section \<open>Repeated captures\<close>

text \<open>
  The identifier case of \<^verbatim>\<open>matcher.node\<close> for a wildcard, for a plain identifier and for
  a literal, and the case of a binary expression.
\<close>

lemma nodeCases_Ident_wild:
  "isWildName e w \<Longrightarrow> nd \<noteq> NilNode \<Longrightarrow>
   nodeCases n e m (Ident sp w) nd st =
     (let vi = info e (fromWildName e w) in
      if any vi then ret False st
      else if \<not> nameRxsOk vi nd then ret False st
      else
       (case needExprOk e st vi nd of
          Inl f \<Rightarrow> Inl f
        | Inr ok \<Rightarrow>
            if \<not> ok then ret False st
            else if name vi = ''_'' then ret True st
            else
             (case mvalues st (name vi) of
                None \<Rightarrow> ret True (st\<lparr>mvalues := (mvalues st)(name vi \<mapsto> nd)\<rparr>)
              | Some prev \<Rightarrow> m prev nd st)))"
  by (simp add: nodeCases_def)








section \<open>Snapshots of the bindings\<close>

text \<open>
  Claim C7. The snapshot \<open>oldMatches\<close> and the restart of \<^verbatim>\<open>matcher.nodes\<close>.

  \<^item> At a multi-wildcard the loop records the restart position (the wildcard itself,
    one candidate further) and takes the snapshot: \<open>oldMatches\<close> becomes the whole of
    the bindings as they are, before anything is tried.
  \<^item> At a multi-wildcard, and at the first pattern element of a partial match, the old
    snapshot is not read: it is replaced before the attempt. These are the two places
    a restart can lead to, so a snapshot is always taken anew after it was restored.
  \<^item> A mismatch with a restart position continues the loop at that position, with
    the bindings equal to the snapshot, whatever they were.
  \<^item> So the bindings of the failed attempt do not reach the next one: two mismatches
    that differ only in their bindings continue alike.
  \<^item> A mismatch without a restart position ends the match with nil.

  The conditions are those of the code: the test for the end of a partial match comes
  first, and a restart needs a restart position within the candidate list that differs
  from the cursors.
\<close>

theorem backtrack_restores_snapshot:
  "(i1 l < len ns1 \<and> any (info e (fromWildNode e (at ns1 (i1 l)))) \<longrightarrow>
      nodesBody cont e m ns1 ns2 partial l st
        = cont ((if name (info e (fromWildNode e (at ns1 (i1 l)))) \<noteq> wildName l
                 then l\<lparr>wildStart := i2 l,
                        wildName := name (info e (fromWildNode e (at ns1 (i1 l))))\<rparr>
                 else l)
                \<lparr>next1 := i1 l, next2 := i2 l + 1, oldMatches := mvalues st, i1 := i1 l + 1\<rparr>)
            st) \<and>
   (i1 l < len ns1 \<and> (any (info e (fromWildNode e (at ns1 (i1 l)))) \<or> partial \<and> i1 l = 0) \<longrightarrow>
      nodesBody cont e m ns1 ns2 partial (l\<lparr>oldMatches := om\<rparr>) st
        = nodesBody cont e m ns1 ns2 partial (l\<lparr>oldMatches := mvalues st\<rparr>) st) \<and>
   (\<not> (partial \<and> i1 l = len ns1 \<and> wildName l = '''') \<and>
    0 < next2 l \<and> next2 l \<le> len ns2 \<and> (i1 l \<noteq> next1 l \<or> i2 l \<noteq> next2 l) \<longrightarrow>
      nodesMismatch cont m ns1 ns2 partial l st
        = cont (l\<lparr>i1 := next1 l, i2 := next2 l\<rparr>) (st\<lparr>mvalues := oldMatches l\<rparr>)) \<and>
   (\<not> (partial \<and> i1 l = len ns1 \<and> wildName l = '''') \<and>
    0 < next2 l \<and> next2 l \<le> len ns2 \<and> (i1 l \<noteq> next1 l \<or> i2 l \<noteq> next2 l) \<and>
    scope st2 = scope st \<longrightarrow>
      nodesMismatch cont m ns1 ns2 partial l st2 = nodesMismatch cont m ns1 ns2 partial l st) \<and>
   (\<not> (partial \<and> i1 l = len ns1 \<and> wildName l = '''') \<and> next2 l = 0 \<longrightarrow>
      nodesMismatch cont m ns1 ns2 partial l st = Inr (NilNode, st))"
proof (intro conjI impI)
  assume "i1 l < len ns1 \<and> any (info e (fromWildNode e (at ns1 (i1 l))))"
  then show "nodesBody cont e m ns1 ns2 partial l st
        = cont ((if name (info e (fromWildNode e (at ns1 (i1 l)))) \<noteq> wildName l
                 then l\<lparr>wildStart := i2 l,
                        wildName := name (info e (fromWildNode e (at ns1 (i1 l))))\<rparr>
                 else l)
                \<lparr>next1 := i1 l, next2 := i2 l + 1, oldMatches := mvalues st, i1 := i1 l + 1\<rparr>)
            st"
    by (simp add: nodesBody_def Let_def)
next
  assume "i1 l < len ns1 \<and> (any (info e (fromWildNode e (at ns1 (i1 l)))) \<or> partial \<and> i1 l = 0)"
  then show "nodesBody cont e m ns1 ns2 partial (l\<lparr>oldMatches := om\<rparr>) st
        = nodesBody cont e m ns1 ns2 partial (l\<lparr>oldMatches := mvalues st\<rparr>) st"
    by (auto simp add: nodesBody_def Let_def cong: sum.case_cong if_cong)
next
  assume "\<not> (partial \<and> i1 l = len ns1 \<and> wildName l = '''') \<and>
    0 < next2 l \<and> next2 l \<le> len ns2 \<and> (i1 l \<noteq> next1 l \<or> i2 l \<noteq> next2 l)"
  then show "nodesMismatch cont m ns1 ns2 partial l st
        = cont (l\<lparr>i1 := next1 l, i2 := next2 l\<rparr>) (st\<lparr>mvalues := oldMatches l\<rparr>)"
    by (auto simp add: nodesMismatch_def)
next
  assume a: "\<not> (partial \<and> i1 l = len ns1 \<and> wildName l = '''') \<and>
    0 < next2 l \<and> next2 l \<le> len ns2 \<and> (i1 l \<noteq> next1 l \<or> i2 l \<noteq> next2 l) \<and>
    scope st2 = scope st"
  then have eq: "st2\<lparr>mvalues := oldMatches l\<rparr> = st\<lparr>mvalues := oldMatches l\<rparr>"
    by (cases st, cases st2) simp
  show "nodesMismatch cont m ns1 ns2 partial l st2 = nodesMismatch cont m ns1 ns2 partial l st"
    using a unfolding nodesMismatch_def eq by auto
next
  assume "\<not> (partial \<and> i1 l = len ns1 \<and> wildName l = '''') \<and> next2 l = 0"
  then show "nodesMismatch cont m ns1 ns2 partial l st = Inr (NilNode, st)"
    by (auto simp add: nodesMismatch_def)
qed

text \<open>
  The run of \<^verbatim>\<open>$*_, $x, 0\<close> on \<^verbatim>\<open>1, 2, 0\<close>: the snapshot at the wildcard replaces a stale
  one; after \<^verbatim>\<open>$x\<close> has taken \<^verbatim>\<open>1\<close> and \<^verbatim>\<open>0\<close> has failed against \<^verbatim>\<open>2\<close>, the restart continues
  with the empty bindings, as it would after any other failed attempt; without a
  restart position the same mismatch returns nil. The whole run binds \<^verbatim>\<open>x\<close> to \<^verbatim>\<open>2\<close>.
\<close>

theorem backtrack_restores_snapshot_witness:
  "nodesBody (nodesLoop 8 exEnv (mnode 8 exEnv) c7p c7c False) exEnv (mnode 8 exEnv) c7p c7c False
      (c7l 0 0 0 [] [''y'' \<mapsto> NilNode]) st0
    = nodesLoop 8 exEnv (mnode 8 exEnv) c7p c7c False (c7l 1 0 1 ''_'' Map.empty) st0 \<and>
   nodesMismatch (nodesLoop 8 exEnv (mnode 8 exEnv) c7p c7c False) (mnode 8 exEnv) c7p c7c False
      (c7l 2 1 1 [] Map.empty) (st0\<lparr>mvalues := [''x'' \<mapsto> intLit 1 ''1'']\<rparr>)
    = nodesLoop 8 exEnv (mnode 8 exEnv) c7p c7c False (c7l 0 1 1 [] Map.empty) st0 \<and>
   nodesMismatch (nodesLoop 8 exEnv (mnode 8 exEnv) c7p c7c False) (mnode 8 exEnv) c7p c7c False
      (c7l 2 1 1 [] Map.empty) (st0\<lparr>mvalues := [''x'' \<mapsto> intLit 1 ''1'']\<rparr>)
    = nodesMismatch (nodesLoop 8 exEnv (mnode 8 exEnv) c7p c7c False) (mnode 8 exEnv) c7p c7c False
      (c7l 2 1 1 [] Map.empty)
      (st0\<lparr>mvalues := [''x'' \<mapsto> intLit 4 ''2'', ''y'' \<mapsto> intLit 7 ''0'']\<rparr>) \<and>
   nodesMismatch (nodesLoop 8 exEnv (mnode 8 exEnv) c7p c7c False) (mnode 8 exEnv) c7p c7c False
      (c7l 2 1 0 [] Map.empty) (st0\<lparr>mvalues := [''x'' \<mapsto> intLit 1 ''1'']\<rparr>)
    = Inr (NilNode, st0\<lparr>mvalues := [''x'' \<mapsto> intLit 1 ''1'']\<rparr>) \<and>
   resultOf (nodes 12 exEnv (mnode 12 exEnv) c7p c7c False st0) = Some (NList ExprL (snd c7c)) \<and>
   bindingOf (nodes 12 exEnv (mnode 12 exEnv) c7p c7c False st0) ''x'' = Some (intLit 4 ''2'')"
proof -
  note t1 = backtrack_restores_snapshot [THEN conjunct1, rule_format]
  note t3 = backtrack_restores_snapshot [THEN conjunct2, THEN conjunct2, THEN conjunct1, rule_format]
  note t4 = backtrack_restores_snapshot
    [THEN conjunct2, THEN conjunct2, THEN conjunct2, THEN conjunct1, rule_format]
  note t5 = backtrack_restores_snapshot
    [THEN conjunct2, THEN conjunct2, THEN conjunct2, THEN conjunct2, rule_format]
  have c1: "nodesBody (nodesLoop 8 exEnv (mnode 8 exEnv) c7p c7c False) exEnv (mnode 8 exEnv) c7p c7c False
      (c7l 0 0 0 [] [''y'' \<mapsto> NilNode]) st0
    = nodesLoop 8 exEnv (mnode 8 exEnv) c7p c7c False (c7l 1 0 1 ''_'' Map.empty) st0"
    by (subst t1)
      (simp_all add: ex_defs c7p_def c7c_def c7l_def len_def at_def del: nodesLoop.simps mnode.simps)
  have c3: "nodesMismatch (nodesLoop 8 exEnv (mnode 8 exEnv) c7p c7c False) (mnode 8 exEnv) c7p c7c False
      (c7l 2 1 1 [] Map.empty) (st0\<lparr>mvalues := [''x'' \<mapsto> intLit 1 ''1'']\<rparr>)
    = nodesLoop 8 exEnv (mnode 8 exEnv) c7p c7c False (c7l 0 1 1 [] Map.empty) st0"
    by (subst t3)
      (simp_all add: st0_def c7p_def c7c_def c7l_def len_def del: nodesLoop.simps mnode.simps)
  have c4: "nodesMismatch (nodesLoop 8 exEnv (mnode 8 exEnv) c7p c7c False) (mnode 8 exEnv) c7p c7c False
      (c7l 2 1 1 [] Map.empty) (st0\<lparr>mvalues := [''x'' \<mapsto> intLit 1 ''1'']\<rparr>)
    = nodesMismatch (nodesLoop 8 exEnv (mnode 8 exEnv) c7p c7c False) (mnode 8 exEnv) c7p c7c False
      (c7l 2 1 1 [] Map.empty)
      (st0\<lparr>mvalues := [''x'' \<mapsto> intLit 4 ''2'', ''y'' \<mapsto> intLit 7 ''0'']\<rparr>)"
    by (rule t4) (simp add: st0_def c7p_def c7c_def c7l_def len_def)
  have c5: "nodesMismatch (nodesLoop 8 exEnv (mnode 8 exEnv) c7p c7c False) (mnode 8 exEnv) c7p c7c False
      (c7l 2 1 0 [] Map.empty) (st0\<lparr>mvalues := [''x'' \<mapsto> intLit 1 ''1'']\<rparr>)
    = Inr (NilNode, st0\<lparr>mvalues := [''x'' \<mapsto> intLit 1 ''1'']\<rparr>)"
    by (rule t5) (simp add: c7l_def)
  have c6: "resultOf (nodes 12 exEnv (mnode 12 exEnv) c7p c7c False st0) = Some (NList ExprL (snd c7c))"
    "bindingOf (nodes 12 exEnv (mnode 12 exEnv) c7p c7c False st0) ''x'' = Some (intLit 4 ''2'')"
    by (simp_all add: eval_nat_numeral ex_defs run_defs c7p_def c7c_def)
  from c1 c3 c4 c5 c6 show ?thesis by blast
qed

section \<open>Faults of type resolution\<close>

lemma resolveType_unsupported:
  "\<not> supportedShape ex \<Longrightarrow> resolveType e sc ex = Inl (Panic ''resolveType TODO'')"
  by (cases ex) (simp_all add: supportedShape_def)

lemma resolveType_array_len:
  "len0 \<noteq> NilNode \<Longrightarrow> \<not> isIntLit len0 \<Longrightarrow> isl (resolveType e sc (ArrayType sp len0 elt))"
  by (cases len0) (auto simp add: isIntLit_def split: sum.splits)

text \<open>
  Claim C8. A type expression that \<^verbatim>\<open>resolveType\<close> cannot resolve is a panic, not a
  failed match.

  \<^item> An array type whose length is present and is not an integer literal panics (when
    its element type resolves, with the message of the array case; otherwise with the
    panic of the element type).
  \<^item> A shape other than an identifier, an array or slice type, a pointer type and a
    selector panics.
  \<^item> A selector whose left side is not an identifier panics in \<^verbatim>\<open>findScope\<close>.
  \<^item> The panic of a part is the panic of the whole: of a pointer type, of an array
    type, and of the loop over the type constraints of a wildcard.
  \<^item> It is the result of the match: when a candidate passes the tests before the
    type constraints and the constraints panic, \<^verbatim>\<open>matcher.node\<close> and \<^verbatim>\<open>topNode\<close> return the
    panic, not \<open>False\<close> and not nil.
\<close>

theorem resolveType_faults_are_fatal:
  "(len0 \<noteq> NilNode \<and> \<not> isIntLit len0 \<longrightarrow> isl (resolveType e sc (ArrayType sp len0 elt))) \<and>
   (\<not> supportedShape ex \<longrightarrow> resolveType e sc ex = Inl (Panic ''resolveType TODO'')) \<and>
   (\<not> (\<exists>sp' x. pkg = Ident sp' x) \<longrightarrow>
      findScope e sc pkg = Inl (Panic ''findScope TODO'') \<and>
      resolveType e sc (SelectorExpr sp pkg sel) = Inl (Panic ''findScope TODO'')) \<and>
   (resolveType e sc ex = Inl f \<longrightarrow>
      resolveType e sc (StarExpr sp ex) = Inl f \<and>
      resolveType e sc (ArrayType sp len0 ex) = Inl f \<and>
      typesOk e sc t (\<lparr>op = o1, expr = ex\<rparr> # tcs) = Inl f) \<and>
   (isWildName e w \<and> nd \<noteq> NilNode \<and> \<not> any (info e (fromWildName e w)) \<and>
    nameRxsOk (info e (fromWildName e w)) nd \<and> needExpr (info e (fromWildName e w)) \<and>
    isExpr nd \<and> TypeOf e nd = Some t \<and>
    (comp (info e (fromWildName e w)) \<longrightarrow> Comparable e t) \<and>
    typesOk e (scope (seatScope e nd st)) t (types (info e (fromWildName e w))) = Inl f \<longrightarrow>
      mnode (Suc k) e (Ident sp w) nd st = Inl f \<and>
      topNode (Suc k) e (Ident sp w) nd st = Inl f)"
proof (intro conjI impI)
  assume "len0 \<noteq> NilNode \<and> \<not> isIntLit len0"
  then have "len0 \<noteq> NilNode" "\<not> isIntLit len0" by simp_all
  then show "isl (resolveType e sc (ArrayType sp len0 elt))"
    by (rule resolveType_array_len)
next
  assume "\<not> supportedShape ex"
  then show "resolveType e sc ex = Inl (Panic ''resolveType TODO'')"
    by (rule resolveType_unsupported)
next
  assume a: "\<not> (\<exists>sp' x. pkg = Ident sp' x)"
  then show fs: "findScope e sc pkg = Inl (Panic ''findScope TODO'')"
    by (cases pkg) (simp_all add: findScope_def)
  then show "resolveType e sc (SelectorExpr sp pkg sel) = Inl (Panic ''findScope TODO'')"
    by simp
next
  assume a: "resolveType e sc ex = Inl f"
  then show "resolveType e sc (StarExpr sp ex) = Inl f"
    "resolveType e sc (ArrayType sp len0 ex) = Inl f"
    "typesOk e sc t (\<lparr>op = o1, expr = ex\<rparr> # tcs) = Inl f"
    by simp_all
next
  assume a: "isWildName e w \<and> nd \<noteq> NilNode \<and> \<not> any (info e (fromWildName e w)) \<and>
    nameRxsOk (info e (fromWildName e w)) nd \<and> needExpr (info e (fromWildName e w)) \<and>
    isExpr nd \<and> TypeOf e nd = Some t \<and>
    (comp (info e (fromWildName e w)) \<longrightarrow> Comparable e t) \<and>
    typesOk e (scope (seatScope e nd st)) t (types (info e (fromWildName e w))) = Inl f"
  then have n: "needExprOk e (seatScope e nd st) (info e (fromWildName e w)) nd = Inl f"
    by (auto simp add: needExprOk_def)
  with a show m: "mnode (Suc k) e (Ident sp w) nd st = Inl f"
    by (simp add: mnode_Suc nodeCases_Ident_wild Let_def del: mnode.simps)
  then show "topNode (Suc k) e (Ident sp w) nd st = Inl f"
    by (simp add: topNode_def asStmtList_def del: mnode.simps)
qed

text \<open>
  The wildcard \<^verbatim>\<open>$x\<close> constrained to the type \<^verbatim>\<open>[n]int\<close>, against the identifier \<^verbatim>\<open>v\<close>: the
  match panics. A channel type, a selector on a literal and a pointer to a channel
  type panic as well.
\<close>

theorem resolveType_faults_are_fatal_witness:
  "isl (resolveType typedEnv None (ArrayType (0, 6) (ident 1 ''n'') (ident 3 ''int''))) \<and>
   resolveType typedEnv None (ChanType (0, 8) 0 (ident 5 ''int'')) = Inl (Panic ''resolveType TODO'') \<and>
   resolveType typedEnv None (SelectorExpr (0, 5) (intLit 0 ''1'') (ident 2 ''int''))
     = Inl (Panic ''findScope TODO'') \<and>
   resolveType typedEnv None (StarExpr (0, 9) (ChanType (1, 9) 0 (ident 6 ''int'')))
     = Inl (Panic ''resolveType TODO'') \<and>
   mnode 3 typedEnv (ident 0 ''$x'') (ident 10 ''v'') st0 = Inl (Panic ''TODO: *ast.ArrayType'') \<and>
   topNode 3 typedEnv (ident 0 ''$x'') (ident 10 ''v'') st0 = Inl (Panic ''TODO: *ast.ArrayType'')"
proof -
  note t1 = resolveType_faults_are_fatal [THEN conjunct1, rule_format]
  note t2 = resolveType_faults_are_fatal [THEN conjunct2, THEN conjunct1, rule_format]
  note t3 = resolveType_faults_are_fatal [THEN conjunct2, THEN conjunct2, THEN conjunct1, rule_format]
  note t4 = resolveType_faults_are_fatal
    [THEN conjunct2, THEN conjunct2, THEN conjunct2, THEN conjunct1, rule_format]
  note t5 = resolveType_faults_are_fatal
    [THEN conjunct2, THEN conjunct2, THEN conjunct2, THEN conjunct2, rule_format]
  have c1: "isl (resolveType typedEnv None (ArrayType (0, 6) (ident 1 ''n'') (ident 3 ''int'')))"
    by (rule t1) (simp add: ident_def isIntLit_def)
  have c2: "resolveType typedEnv None (ChanType (0, 8) 0 (ident 5 ''int'')) = Inl (Panic ''resolveType TODO'')"
    by (rule t2) (simp add: supportedShape_def)
  have c3: "resolveType typedEnv None (SelectorExpr (0, 5) (intLit 0 ''1'') (ident 2 ''int''))
     = Inl (Panic ''findScope TODO'')"
    by (rule t3 [THEN conjunct2]) (simp add: intLit_def)
  have c4: "resolveType typedEnv None (StarExpr (0, 9) (ChanType (1, 9) 0 (ident 6 ''int'')))
     = Inl (Panic ''resolveType TODO'')"
    by (rule t4 [THEN conjunct1]) simp
  have r: "resolveType typedEnv None (ArrayType (0, 6) (ident 1 ''n'') (ident 3 ''int''))
      = Inl (Panic ''TODO: *ast.ArrayType'')"
    by (simp add: typedEnv_def tableEnv_def ident_def objType_def)
  have h: "isWildName typedEnv ''$x'' \<and> ident 10 ''v'' \<noteq> NilNode \<and>
      \<not> any (info typedEnv (fromWildName typedEnv ''$x'')) \<and>
      nameRxsOk (info typedEnv (fromWildName typedEnv ''$x'')) (ident 10 ''v'') \<and>
      needExpr (info typedEnv (fromWildName typedEnv ''$x'')) \<and>
      isExpr (ident 10 ''v'') \<and> TypeOf typedEnv (ident 10 ''v'') = Some (TOpaque ''int'') \<and>
      (comp (info typedEnv (fromWildName typedEnv ''$x'')) \<longrightarrow> Comparable typedEnv (TOpaque ''int'')) \<and>
      typesOk typedEnv (scope (seatScope typedEnv (ident 10 ''v'') st0)) (TOpaque ''int'')
        (types (info typedEnv (fromWildName typedEnv ''$x''))) = Inl (Panic ''TODO: *ast.ArrayType'')"
    using r
    by (simp add: typedEnv_def tableEnv_def typedTab_def ident_def nameRxsOk_def isExpr_def
        seatScope_def isScopeNode_def st0_def)
  have n: "(3::nat) = Suc 2" by simp
  have c5: "mnode 3 typedEnv (ident 0 ''$x'') (ident 10 ''v'') st0 = Inl (Panic ''TODO: *ast.ArrayType'')"
    "topNode 3 typedEnv (ident 0 ''$x'') (ident 10 ''v'') st0 = Inl (Panic ''TODO: *ast.ArrayType'')"
    unfolding n ident_def [of 0]
    using t5 [OF h [unfolded ident_def [of 0]], of 2 "(0, 0 + int (length ''$x''))"]
    by simp_all
  from c1 c2 c3 c4 c5 show ?thesis by blast
qed

section \<open>Two runs of a walk\<close>

text \<open>
  \<^verbatim>\<open>walkWithLists\<close> calls its callback at the same nodes and lists whatever the callback
  is. So two callbacks that keep a relation between their states at each call keep it
  over the whole walk, and they panic together.
\<close>

lemma forEach_rel:
  assumes step: "\<And>x s1 s2. R s1 s2 \<Longrightarrow> rel_sum (=) R (f x s1) (g x s2)"
    and init: "R s1 s2"
  shows "rel_sum (=) R (forEach f xs s1) (forEach g xs s2)"
  using init
proof (induction xs arbitrary: s1 s2)
  case Nil
  then show ?case by simp
next
  case (Cons x xs)
  from step [OF Cons.prems, of x] Cons.IH show ?case
    by (cases "f x s1"; cases "g x s2") auto
qed

lemma visit_rel:
  assumes step: "\<And>x nd s1 s2. R s1 s2 \<Longrightarrow> rel_sum (=) R (fn1 x nd s1) (fn2 x nd s2)"
    and init: "R s1 s2"
  shows "rel_sum (=) R (visit fn1 ex nd s1) (visit fn2 ex nd s2)"
proof -
  have "rel_sum (=) R (forEach (fn1 ex) ns t1) (forEach (fn2 ex) ns t2)" if "R t1 t2" for ns t1 t2
    using step that by (rule forEach_rel)
  with step [OF init, of ex nd] show ?thesis
    by (cases "fn1 ex nd s1"; cases "fn2 ex nd s2") (auto simp add: visit_def)
qed

lemma walkWithLists_other:
  "\<not> (\<exists>lk xs. nd = NList lk xs) \<Longrightarrow>
   walkWithLists e ex nd fn s = forEach (visit fn ex) (Inspect e nd) s"
  by (cases nd) (simp_all add: walkWithLists_def)

lemma walkWithLists_list:
  "walkWithLists e ex (NList lk xs) fn s =
     (case (if isExpr ex
            then (case fn (NList ExprL [ex]) (NList lk xs) s of
                    Inl y \<Rightarrow> Inl y
                  | Inr s' \<Rightarrow> fn (NList StmtL [ExprStmt (nodeSpan ex) ex]) (NList lk xs) s')
            else Inr s) of
        Inl y \<Rightarrow> Inl y
      | Inr s2 \<Rightarrow>
          (case fn ex (NList lk xs) s2 of
             Inl y \<Rightarrow> Inl y
           | Inr s3 \<Rightarrow> forEach (\<lambda>x. forEach (visit fn ex) (Inspect e x)) xs s3))"
  by (simp add: walkWithLists_def)

lemma bind_rel:
  assumes "rel_sum (=) R a b"
    and "\<And>x y. R x y \<Longrightarrow> rel_sum (=) R (F x) (G y)"
  shows "rel_sum (=) R (case a of Inl y \<Rightarrow> Inl y | Inr x \<Rightarrow> F x)
           (case b of Inl y \<Rightarrow> Inl y | Inr x \<Rightarrow> G x)"
  using assms by (cases a; cases b) auto

lemma walkWithLists_rel:
  assumes step: "\<And>x nd s1 s2. R s1 s2 \<Longrightarrow> rel_sum (=) R (fn1 x nd s1) (fn2 x nd s2)"
    and init: "R s1 s2"
  shows "rel_sum (=) R (walkWithLists e ex nd fn1 s1) (walkWithLists e ex nd fn2 s2)"
proof -
  have vis: "rel_sum (=) R (visit fn1 ex x t1) (visit fn2 ex x t2)" if "R t1 t2" for x t1 t2
    using step that by (rule visit_rel)
  have v: "rel_sum (=) R (forEach (visit fn1 ex) ns t1) (forEach (visit fn2 ex) ns t2)"
    if "R t1 t2" for ns t1 t2
    using vis that by (rule forEach_rel)
  have vv: "rel_sum (=) R (forEach (\<lambda>x. forEach (visit fn1 ex) (Inspect e x)) xs t1)
                (forEach (\<lambda>x. forEach (visit fn2 ex) (Inspect e x)) xs t2)"
    if "R t1 t2" for xs t1 t2
    using v that by (rule forEach_rel)
  show ?thesis
  proof (cases "\<exists>lk xs. nd = NList lk xs")
    case False
    then show ?thesis using v [OF init] by (simp add: walkWithLists_other)
  next
    case True
    then obtain lk xs where nd: "nd = NList lk xs" by blast
    have pre: "rel_sum (=) R
       (if isExpr ex
        then (case fn1 (NList ExprL [ex]) (NList lk xs) s1 of
                Inl y \<Rightarrow> Inl y
              | Inr s' \<Rightarrow> fn1 (NList StmtL [ExprStmt (nodeSpan ex) ex]) (NList lk xs) s')
        else Inr s1)
       (if isExpr ex
        then (case fn2 (NList ExprL [ex]) (NList lk xs) s2 of
                Inl y \<Rightarrow> Inl y
              | Inr s' \<Rightarrow> fn2 (NList StmtL [ExprStmt (nodeSpan ex) ex]) (NList lk xs) s')
        else Inr s2)"
    proof (cases "isExpr ex")
      case True
      then show ?thesis
        by (simp only: if_True) (rule bind_rel, rule step, rule init, rule step)
    next
      case False
      then show ?thesis using init by simp
    qed
    show ?thesis
      unfolding nd walkWithLists_list
      by (rule bind_rel, rule pre, rule bind_rel, rule step, assumption, rule vv)
  qed
qed

section \<open>The filter stages\<close>

lemma retain_Cons:
  "retain w (nd # nds) (b # bs) = (if b = w then nd # retain w nds bs else retain w nds bs)"
  by (simp add: retain_def)

lemma retain_Nil [simp]: "retain w [] bs = []"
  by (simp add: retain_def)

lemma cmdFilterLoop_eq:
  "cmdFilterLoop k e w cmd nds acc st =
     (case matchedAnywhere k e cmd nds st of
        Inl f \<Rightarrow> Inl f
      | Inr (bs, st') \<Rightarrow> Inr (acc @ retain w nds bs, st'))"
proof (induction nds arbitrary: acc st)
  case Nil
  then show ?case by simp
next
  case (Cons nd nds)
  show ?case
    by (simp add: Cons.IH retain_Cons split: sum.splits prod.splits)
qed

lemma matchedAnywhere_length:
  "matchedAnywhere k e cmd nds st = Inr (bs, st') \<Longrightarrow> length bs = length nds"
  by (induction nds arbitrary: bs st) (auto split: sum.splits prod.splits)

lemma retain_complement:
  "length bs = length nds \<Longrightarrow>
   mset (retain True nds bs) + mset (retain False nds bs) = mset nds \<and>
   set (retain True nds bs) \<union> set (retain False nds bs) = set nds \<and>
   subseq (retain w nds bs) nds"
proof (induction bs nds rule: list_induct2)
  case Nil
  then show ?case by simp
next
  case (Cons b bs nd nds)
  then show ?case by (auto simp add: retain_Cons)
qed

text \<open>
  Claim C5. \<^verbatim>\<open>cmdFilter\<close> is the filter stage of the specification: it computes, for each
  candidate in turn, whether the pattern matched anywhere inside it, and retains the
  candidates whose flag equals \<open>wantAny\<close>, in the order of the input and as many times
  as they occur in it. The flags do not depend on \<open>wantAny\<close>, so the keep stage and the
  drop stage on the same pattern and candidates retain complementary sub-lists: as
  multisets they add up to the input, as sets their union is the input, each is a
  subsequence of the input, and both leave the matcher in the same state. When one of
  the two stages returns, the other returns as well.
\<close>

theorem filter_polarity:
  "cmdFilter k e w cmd nds st =
     (case matchedAnywhere k e cmd nds st of
        Inl f \<Rightarrow> Inl f
      | Inr (bs, st') \<Rightarrow> Inr (retain w nds bs, st')) \<and>
   (matchedAnywhere k e cmd nds st = Inr (bs, st') \<longrightarrow>
      length bs = length nds \<and>
      cmdFilter k e True cmd nds st = Inr (retain True nds bs, st') \<and>
      cmdFilter k e False cmd nds st = Inr (retain False nds bs, st')) \<and>
   (cmdFilter k e True cmd nds st = Inr (ks, st') \<longrightarrow>
      (\<exists>ds. cmdFilter k e False cmd nds st = Inr (ds, st') \<and>
            mset ks + mset ds = mset nds \<and> set ks \<union> set ds = set nds \<and>
            subseq ks nds \<and> subseq ds nds)) \<and>
   (cmdFilter k e False cmd nds st = Inr (ds, st') \<longrightarrow>
      (\<exists>ks. cmdFilter k e True cmd nds st = Inr (ks, st') \<and>
            mset ks + mset ds = mset nds \<and> set ks \<union> set ds = set nds \<and>
            subseq ks nds \<and> subseq ds nds))"
proof -
  have eq: "cmdFilter k e w cmd nds st =
     (case matchedAnywhere k e cmd nds st of
        Inl f \<Rightarrow> Inl f
      | Inr (bs, st') \<Rightarrow> Inr (retain w nds bs, st'))" for w
    by (simp add: cmdFilter_def cmdFilterLoop_eq split: sum.splits prod.splits)
  have flags: "length bs = length nds \<and>
      cmdFilter k e True cmd nds st = Inr (retain True nds bs, st') \<and>
      cmdFilter k e False cmd nds st = Inr (retain False nds bs, st')"
    if "matchedAnywhere k e cmd nds st = Inr (bs, st')"
    using that matchedAnywhere_length [OF that] by (simp add: eq)
  have keep: "\<exists>ds. cmdFilter k e False cmd nds st = Inr (ds, st') \<and>
            mset ks + mset ds = mset nds \<and> set ks \<union> set ds = set nds \<and>
            subseq ks nds \<and> subseq ds nds"
    if a: "cmdFilter k e True cmd nds st = Inr (ks, st')"
  proof -
    from a obtain bs where m: "matchedAnywhere k e cmd nds st = Inr (bs, st')"
      and ks: "ks = retain True nds bs"
      by (auto simp add: eq split: sum.splits prod.splits)
    from matchedAnywhere_length [OF m] have l: "length bs = length nds" .
    from m have "cmdFilter k e False cmd nds st = Inr (retain False nds bs, st')"
      by (simp add: eq)
    with ks retain_complement [OF l, of True] retain_complement [OF l, of False]
    show ?thesis by simp
  qed
  have drop: "\<exists>ks. cmdFilter k e True cmd nds st = Inr (ks, st') \<and>
            mset ks + mset ds = mset nds \<and> set ks \<union> set ds = set nds \<and>
            subseq ks nds \<and> subseq ds nds"
    if a: "cmdFilter k e False cmd nds st = Inr (ds, st')"
  proof -
    from a obtain bs where m: "matchedAnywhere k e cmd nds st = Inr (bs, st')"
      and ds: "ds = retain False nds bs"
      by (auto simp add: eq split: sum.splits prod.splits)
    from matchedAnywhere_length [OF m] have l: "length bs = length nds" .
    from m have "cmdFilter k e True cmd nds st = Inr (retain True nds bs, st')"
      by (simp add: eq)
    with ds retain_complement [OF l, of True] retain_complement [OF l, of False]
    show ?thesis by simp
  qed
  from eq flags keep drop show ?thesis by blast
qed

text \<open>
  The pattern \<^verbatim>\<open>$x + $x\<close> on the candidates \<^verbatim>\<open>a + a\<close>, \<^verbatim>\<open>a + b\<close>, \<^verbatim>\<open>(c + c)\<close>: the flags are
  true, false, true; the keep stage retains the first and the third candidate, the
  drop stage the second.
\<close>

theorem filter_polarity_witness:
  "resultOf (cmdFilter 5 exEnv True \<lparr>cmdName = ''g'', cmdNode = c5pat\<rparr> [c5a, c5b, c5c] st0)
     = Some [c5a, c5c] \<and>
   resultOf (cmdFilter 5 exEnv False \<lparr>cmdName = ''g'', cmdNode = c5pat\<rparr> [c5a, c5b, c5c] st0)
     = Some [c5b] \<and>
   resultOf (matchedAnywhere 5 exEnv \<lparr>cmdName = ''g'', cmdNode = c5pat\<rparr> [c5a, c5b, c5c] st0)
     = Some [True, False, True] \<and>
   mset [c5a, c5c] + mset [c5b] = mset [c5a, c5b, c5c] \<and>
   set [c5a, c5c] \<union> set [c5b] = set [c5a, c5b, c5c] \<and>
   subseq [c5a, c5c] [c5a, c5b, c5c] \<and> subseq [c5b] [c5a, c5b, c5c]"
proof -
  note t2 = filter_polarity [THEN conjunct2, THEN conjunct1, rule_format]
  note t3 = filter_polarity [THEN conjunct2, THEN conjunct2, THEN conjunct1, rule_format]
  let ?g = "\<lparr>cmdName = ''g'', cmdNode = c5pat\<rparr>"
  have "\<exists>st'. matchedAnywhere 5 exEnv ?g [c5a, c5b, c5c] st0 = Inr ([True, False, True], st')"
    by (simp add: eval_nat_numeral ex_defs run_defs walk_defs c5pat_def c5a_def c5b_def c5c_def)
  then obtain st' where m: "matchedAnywhere 5 exEnv ?g [c5a, c5b, c5c] st0 = Inr ([True, False, True], st')"
    by blast
  from t2 [OF m] have k: "cmdFilter 5 exEnv True ?g [c5a, c5b, c5c] st0 = Inr ([c5a, c5c], st')"
    and d: "cmdFilter 5 exEnv False ?g [c5a, c5b, c5c] st0 = Inr ([c5b], st')"
    by (simp_all add: retain_def)
  from t3 [OF k] d have "mset [c5a, c5c] + mset [c5b] = mset [c5a, c5b, c5c] \<and>
      set [c5a, c5c] \<union> set [c5b] = set [c5a, c5b, c5c] \<and>
      subseq [c5a, c5c] [c5a, c5b, c5c] \<and> subseq [c5b] [c5a, c5b, c5c]"
    by auto
  with k d m show ?thesis by (simp add: resultOf_def)
qed

section \<open>The range stage\<close>

lemma keepFirst_snoc:
  "keepFirst S (fs @ [p]) = keepFirst S fs @ (if snd p \<in> S \<union> snd ` set fs then [] else [p])"
  by (induction fs arbitrary: S) auto

lemma keepFirst_notin: "p \<in> set (keepFirst S fs) \<Longrightarrow> snd p \<notin> S"
  by (induction fs arbitrary: S) (auto split: if_splits)

lemma keepFirst_subset: "set (keepFirst S fs) \<subseteq> set fs"
  by (induction fs arbitrary: S) auto

lemma keepFirst_cover:
  "p \<in> set fs \<Longrightarrow> snd p \<notin> S \<Longrightarrow> snd p \<in> snd ` set (keepFirst S fs)"
proof (induction fs arbitrary: S)
  case Nil
  then show ?case by simp
next
  case (Cons q fs)
  show ?case
  proof (cases "snd q \<in> S")
    case True
    with Cons.prems have "p \<in> set fs" by auto
    with Cons.IH [OF _ Cons.prems(2)] True show ?thesis by simp
  next
    case False
    show ?thesis
    proof (cases "snd p = snd q")
      case True
      with False show ?thesis by simp
    next
      case ne: False
      with Cons.prems have "p \<in> set fs" "snd p \<notin> insert (snd q) S" by auto
      from Cons.IH [OF this] False show ?thesis by simp
    qed
  qed
qed

lemma keepFirst_distinct: "distinct (map snd (keepFirst S fs))"
proof (induction fs arbitrary: S)
  case Nil
  then show ?case by simp
next
  case (Cons q fs)
  have "snd q \<notin> snd ` set (keepFirst (insert (snd q) S) fs)"
  proof
    assume "snd q \<in> snd ` set (keepFirst (insert (snd q) S) fs)"
    then obtain p where "p \<in> set (keepFirst (insert (snd q) S) fs)" "snd p = snd q" by force
    with keepFirst_notin [of p "insert (snd q) S" fs] show False by simp
  qed
  with Cons.IH show ?case by simp
qed

lemma keepFirst_spans:
  "distinct (map snd (keepFirst {} fs)) \<and> snd ` set (keepFirst {} fs) = snd ` set fs"
  using keepFirst_distinct [of "{}" fs] keepFirst_subset [of "{}" fs] keepFirst_cover [of _ fs "{}"]
  by auto

lemma keepFirst_subseq: "subseq (keepFirst S fs) fs"
  by (induction fs arbitrary: S) auto

lemma keepFirst_find:
  "sp \<notin> S \<Longrightarrow> find (\<lambda>q. snd q = sp) (keepFirst S fs) = find (\<lambda>q. snd q = sp) fs"
  by (induction fs arbitrary: S) auto

lemma rangeMatch_foundMatch:
  "rangeRel s1 s2 \<Longrightarrow> rel_sum (=) rangeRel (rangeMatch k e x nd s1) (foundMatch k e x nd s2)"
  by (cases s1; cases s2)
    (auto simp add: rangeRel_def rangeMatch_def foundMatch_def keepFirst_snoc
      split: sum.splits prod.splits)

lemma cmdRange_eq:
  "cmdRange k e cmd nds st =
     (case rangeFound k e cmd nds st of
        Inl f \<Rightarrow> Inl f
      | Inr (fs, st') \<Rightarrow> Inr (map fst (keepFirst {} fs), st'))"
proof -
  have w: "rel_sum (=) rangeRel (walkWithLists e (cmdNode cmd) nd (rangeMatch k e) s1)
             (walkWithLists e (cmdNode cmd) nd (foundMatch k e) s2)"
    if "rangeRel s1 s2" for nd s1 s2
    using rangeMatch_foundMatch that by (rule walkWithLists_rel)
  have "rangeRel ([], {}, st) ([], st)" by (simp add: rangeRel_def)
  with w have "rel_sum (=) rangeRel
      (forEach (\<lambda>nd. walkWithLists e (cmdNode cmd) nd (rangeMatch k e)) nds ([], {}, st))
      (forEach (\<lambda>nd. walkWithLists e (cmdNode cmd) nd (foundMatch k e)) nds ([], st))"
    by (rule forEach_rel)
  then show ?thesis
    by (cases "forEach (\<lambda>nd. walkWithLists e (cmdNode cmd) nd (rangeMatch k e)) nds ([], {}, st)";
        cases "forEach (\<lambda>nd. walkWithLists e (cmdNode cmd) nd (foundMatch k e)) nds ([], st)")
       (auto simp add: cmdRange_def rangeFound_def rangeRel_def)
qed

lemma foundMatch_spansOk:
  "s1 = s2 \<and> spansOk s1 \<Longrightarrow>
   rel_sum (=) (\<lambda>a b. a = b \<and> spansOk a) (foundMatch k e x nd s1) (foundMatch k e x nd s2)"
  by (cases s1)
    (auto simp add: spansOk_def foundMatch_def split: sum.splits prod.splits)

lemma rangeFound_spansOk:
  assumes "rangeFound k e cmd nds st = Inr (fs, st')"
  shows "list_all (\<lambda>p. posRange (fst p) = Inr (snd p)) fs"
proof -
  have w: "rel_sum (=) (\<lambda>a b. a = b \<and> spansOk a)
             (walkWithLists e (cmdNode cmd) nd (foundMatch k e) s1)
             (walkWithLists e (cmdNode cmd) nd (foundMatch k e) s2)"
    if "s1 = s2 \<and> spansOk s1" for nd s1 s2
    using foundMatch_spansOk that by (rule walkWithLists_rel)
  have "([], st) = ([], st) \<and> spansOk ([], st)" by (simp add: spansOk_def)
  with w have "rel_sum (=) (\<lambda>a b. a = b \<and> spansOk a)
      (forEach (\<lambda>nd. walkWithLists e (cmdNode cmd) nd (foundMatch k e)) nds ([], st))
      (forEach (\<lambda>nd. walkWithLists e (cmdNode cmd) nd (foundMatch k e)) nds ([], st))"
    by (rule forEach_rel)
  with assms show ?thesis
    by (simp add: rangeFound_def spansOk_def)
qed

text \<open>
  Claim C6. \<^verbatim>\<open>cmdRange\<close> is the range stage of the specification: it returns the finds of
  all attempts, in the order of discovery, without those whose span was recorded
  before (\<open>keepFirst\<close>). Of the finds \<open>fs\<close>, \<open>keepFirst\<close> keeps each span once, keeps every
  span that occurs, keeps the order, and keeps for each span the first find that has
  it. Each find is recorded with its own span (start and end of the node), so the
  nodes that \<^verbatim>\<open>cmdRange\<close> returns have pairwise different spans.
\<close>

theorem range_records_each_span_once:
  "cmdRange k e cmd nds st =
     (case rangeFound k e cmd nds st of
        Inl f \<Rightarrow> Inl f
      | Inr (fs, st') \<Rightarrow> Inr (map fst (keepFirst {} fs), st')) \<and>
   distinct (map snd (keepFirst {} fs)) \<and>
   snd ` set (keepFirst {} fs) = snd ` set fs \<and>
   subseq (keepFirst {} fs) fs \<and>
   find (\<lambda>q. snd q = sp) (keepFirst {} fs) = find (\<lambda>q. snd q = sp) fs \<and>
   (rangeFound k e cmd nds st = Inr (fs, st') \<longrightarrow>
      list_all (\<lambda>p. posRange (fst p) = Inr (snd p)) fs) \<and>
   (cmdRange k e cmd nds st = Inr (ms, st') \<longrightarrow> distinct (map posRange ms))"
proof -
  have d: "distinct (map posRange ms)" if a: "cmdRange k e cmd nds st = Inr (ms, st')"
  proof -
    from a obtain fs' where r: "rangeFound k e cmd nds st = Inr (fs', st')"
      and ms: "ms = map fst (keepFirst {} fs')"
      by (auto simp add: cmdRange_eq split: sum.splits prod.splits)
    from rangeFound_spansOk [OF r] have "\<forall>p \<in> set fs'. posRange (fst p) = Inr (snd p)"
      by (simp add: list_all_iff)
    moreover have "set (keepFirst {} fs') \<subseteq> set fs'"
      by (rule keepFirst_subset)
    ultimately have "map posRange ms = map (\<lambda>p. Inr (snd p)) (keepFirst {} fs')"
      by (auto simp add: ms)
    also have "\<dots> = map Inr (map snd (keepFirst {} fs'))" by simp
    finally show ?thesis
      using keepFirst_spans [of fs'] by (simp add: distinct_map inj_on_def)
  qed
  from cmdRange_eq [of k e cmd nds st] keepFirst_spans [of fs] keepFirst_subseq [of "{}" fs]
    keepFirst_find [of sp "{}" fs] rangeFound_spansOk [of k e cmd nds st fs st'] d
  show ?thesis by auto
qed

text \<open>
  The pattern \<^verbatim>\<open>$x\<close> on the argument list \<^verbatim>\<open>a\<close>: the walk finds the list twice (as a list
  of expressions, and through the one-element view of the pattern) and its element
  once, all three at the span from 10 to 11; \<^verbatim>\<open>cmdRange\<close> returns the first find only.
\<close>

theorem range_records_each_span_once_witness:
  "resultOf (rangeFound 6 exEnv \<lparr>cmdName = ''x'', cmdNode = ident 0 ''$x''\<rparr> [c6list] st0)
     = Some [(c6list, (10, 11)), (c6list, (10, 11)), (ident 10 ''a'', (10, 11))] \<and>
   resultOf (cmdRange 6 exEnv \<lparr>cmdName = ''x'', cmdNode = ident 0 ''$x''\<rparr> [c6list] st0)
     = Some [c6list] \<and>
   list_all (\<lambda>p. posRange (fst p) = Inr (snd p))
     [(c6list, (10, 11)), (c6list, (10, 11)), (ident 10 ''a'', (10, 11))] \<and>
   distinct (map posRange [c6list])"
proof -
  note t1 = range_records_each_span_once [THEN conjunct1]
  note t6 = range_records_each_span_once [THEN conjunct2, THEN conjunct2, THEN conjunct2,
      THEN conjunct2, THEN conjunct2, THEN conjunct1, rule_format]
  note t7 = range_records_each_span_once [THEN conjunct2, THEN conjunct2, THEN conjunct2,
      THEN conjunct2, THEN conjunct2, THEN conjunct2, rule_format]
  let ?x = "\<lparr>cmdName = ''x'', cmdNode = ident 0 ''$x''\<rparr>"
  let ?fs = "[(c6list, (10, 11)), (c6list, (10, 11)), (ident 10 ''a'', (10 :: int, 11 :: int))]"
  have "\<exists>st'. rangeFound 6 exEnv ?x [c6list] st0 = Inr (?fs, st')"
    by (simp add: eval_nat_numeral rangeFound_def ex_defs run_defs walk_defs c6list_def)
  then obtain st' where r: "rangeFound 6 exEnv ?x [c6list] st0 = Inr (?fs, st')"
    by blast
  from t1 [of 6 exEnv ?x "[c6list]" st0] r
  have c: "cmdRange 6 exEnv ?x [c6list] st0 = Inr ([c6list], st')"
    by simp
  from t6 [OF r] t7 [OF c] r c show ?thesis
    by (simp add: resultOf_def)
qed

end
